theory Spec2Isabelle
  imports Complex_Main "HOL-Library.Word" "HOL-Library.List_Lexorder" "HOL-Library.Multiset"
begin

unbundle bit_operations_syntax

section \<open>JavaScript values\<close>

subsection \<open>Strings\<close>

text \<open>
  A JavaScript string is a sequence of UTF-16 code units: \<open>length\<close>, \<open>charCodeAt\<close>,
  \<open>===\<close> and the default order of \<open>Array.prototype.sort\<close> all work on code units.
  The lexicographic order on lists of 16-bit words is that order.
\<close>

type_synonym jsstring = "16 word list"

definition str :: "string \<Rightarrow> jsstring" where
  "str s = map (\<lambda>c. of_nat (of_char c)) s"

definition digit :: "nat \<Rightarrow> 16 word" where
  "digit d = of_nat (48 + d)"

text \<open>\<open>String(n)\<close> for a non-negative integer \<open>n\<close> (array lengths, counters).\<close>

fun dec :: "nat \<Rightarrow> jsstring" where
  "dec n = (if n < 10 then [digit n] else dec (n div 10) @ [digit (n mod 10)])"

declare dec.simps [simp del]

subsection \<open>Numbers\<close>

text \<open>
  A JavaScript Number is an IEEE 754 binary64 value: a finite value (a rational on the
  binary64 grid), an infinity or NaN. Every arithmetic operation rounds its exact result
  to the nearest binary64 value, ties to even. The sign of zero is not modelled; no
  divisor of the code below can be a negative zero.
\<close>

datatype jsnum = Fin rat | PInf | NInf | NaN

definition pow2 :: "int \<Rightarrow> rat" where
  "pow2 e = (if 0 \<le> e then 2 ^ nat e else 1 / 2 ^ nat (- e))"

fun flog2 :: "nat \<Rightarrow> nat" where
  "flog2 n = (if n < 2 then 0 else Suc (flog2 (n div 2)))"

declare flog2.simps [simp del]

definition clog2 :: "nat \<Rightarrow> nat" where
  "clog2 n = (if n \<le> 1 then 0 else Suc (flog2 (n - 1)))"

text \<open>The binary exponent of a positive rational: \<open>2 ^ e \<le> x < 2 ^ (e + 1)\<close>.\<close>

definition binexp :: "rat \<Rightarrow> int" where
  "binexp x = (if 1 \<le> x then int (flog2 (nat \<lfloor>x\<rfloor>)) else - int (clog2 (nat \<lceil>1 / x\<rceil>)))"

definition round_half_even :: "rat \<Rightarrow> int" where
  "round_half_even m =
     (let f = \<lfloor>m\<rfloor>; d = m - of_int f
      in if d < 1 / 2 then f else if 1 / 2 < d then f + 1 else if even f then f else f + 1)"

text \<open>
  Rounding to binary64: 53 significant bits, exponents from -1022 (below it the spacing
  stays at \<open>2 ^ -1074\<close>), overflow to an infinity from \<open>2 ^ 1024\<close> on.
\<close>

definition round64 :: "rat \<Rightarrow> jsnum" where
  "round64 x =
     (if x = 0 then Fin 0
      else let a = \<bar>x\<bar>;
               e = max (binexp a) (- 1022);
               u = pow2 (e - 52);
               r = of_int (round_half_even (a / u)) * u
           in if pow2 1024 \<le> r then (if 0 < x then PInf else NInf)
              else Fin (if 0 < x then r else - r))"

fun js_neg :: "jsnum \<Rightarrow> jsnum" where
  "js_neg (Fin a) = Fin (- a)"
| "js_neg PInf = NInf"
| "js_neg NInf = PInf"
| "js_neg NaN = NaN"

fun js_add :: "jsnum \<Rightarrow> jsnum \<Rightarrow> jsnum" where
  "js_add (Fin a) (Fin b) = round64 (a + b)"
| "js_add NaN _ = NaN"
| "js_add _ NaN = NaN"
| "js_add PInf NInf = NaN"
| "js_add NInf PInf = NaN"
| "js_add PInf _ = PInf"
| "js_add NInf _ = NInf"
| "js_add (Fin a) PInf = PInf"
| "js_add (Fin a) NInf = NInf"

definition js_sub :: "jsnum \<Rightarrow> jsnum \<Rightarrow> jsnum" where
  "js_sub a b = js_add a (js_neg b)"

text \<open>The sign of a non-zero, non-NaN number: \<open>True\<close> for positive.\<close>

fun js_pos :: "jsnum \<Rightarrow> bool" where
  "js_pos (Fin a) = (0 < a)"
| "js_pos PInf = True"
| "js_pos NInf = False"
| "js_pos NaN = False"

fun js_mul :: "jsnum \<Rightarrow> jsnum \<Rightarrow> jsnum" where
  "js_mul (Fin a) (Fin b) = round64 (a * b)"
| "js_mul NaN _ = NaN"
| "js_mul _ NaN = NaN"
| "js_mul x y =
     (if x = Fin 0 \<or> y = Fin 0 then NaN
      else if js_pos x = js_pos y then PInf else NInf)"

fun js_div :: "jsnum \<Rightarrow> jsnum \<Rightarrow> jsnum" where
  "js_div (Fin a) (Fin b) =
     (if b = 0 then (if a = 0 then NaN else if 0 < a then PInf else NInf)
      else round64 (a / b))"
| "js_div NaN _ = NaN"
| "js_div _ NaN = NaN"
| "js_div (Fin a) _ = Fin 0"
| "js_div x (Fin b) = (if js_pos x = (0 \<le> b) then PInf else NInf)"
| "js_div _ _ = NaN"

text \<open>\<open>Math.floor\<close>; and \<open>Math.round\<close>, which rounds a tie towards plus infinity.\<close>

fun js_floor :: "jsnum \<Rightarrow> jsnum" where
  "js_floor (Fin a) = Fin (of_int \<lfloor>a\<rfloor>)"
| "js_floor x = x"

fun js_round :: "jsnum \<Rightarrow> jsnum" where
  "js_round (Fin a) = Fin (of_int \<lfloor>a + 1 / 2\<rfloor>)"
| "js_round x = x"

fun js_lt :: "jsnum \<Rightarrow> jsnum \<Rightarrow> bool" where
  "js_lt (Fin a) (Fin b) = (a < b)"
| "js_lt NaN _ = False"
| "js_lt _ NaN = False"
| "js_lt NInf NInf = False"
| "js_lt NInf _ = True"
| "js_lt _ NInf = False"
| "js_lt PInf _ = False"
| "js_lt _ PInf = True"

text \<open>\<open>Math.min\<close> and \<open>Math.max\<close> of two numbers: NaN if either is NaN.\<close>

definition js_min :: "jsnum \<Rightarrow> jsnum \<Rightarrow> jsnum" where
  "js_min a b = (if a = NaN \<or> b = NaN then NaN else if js_lt b a then b else a)"

definition js_max :: "jsnum \<Rightarrow> jsnum \<Rightarrow> jsnum" where
  "js_max a b = (if a = NaN \<or> b = NaN then NaN else if js_lt a b then b else a)"

definition num :: "nat \<Rightarrow> jsnum" where
  "num n = Fin (of_nat n)"

text \<open>Reading \<open>xs[i]\<close>: \<open>undefined\<close> (here \<open>None\<close>) out of range.\<close>

definition nth_opt :: "'a list \<Rightarrow> nat \<Rightarrow> 'a option" where
  "nth_opt xs i = (if i < length xs then Some (xs ! i) else None)"

text \<open>\<open>xs.every((v, i) => p(v, i))\<close>.\<close>

definition every_idx :: "('a \<Rightarrow> nat \<Rightarrow> bool) \<Rightarrow> 'a list \<Rightarrow> bool" where
  "every_idx p xs = list_all (\<lambda>(v, i). p v i) (zip xs [0..<length xs])"

section \<open>Exam types (examTypes.ts)\<close>

datatype CoreId = Core1201 | Core1202

datatype QuestionType = Single | Multi | PbqOrder | PbqMatch

datatype Difficulty = Easy | Medium | Hard

record Opt =
  opt_id :: jsstring
  opt_text :: jsstring

datatype Pbq =
    PbqOrderKind "Opt list"
  | PbqMatchKind jsstring jsstring "Opt list" "Opt list"

record Question =
  q_id :: jsstring
  q_core :: CoreId
  q_domain :: jsstring
  q_objective :: jsstring
  q_objectiveTitle :: jsstring
  q_objectiveBullets :: "jsstring list"
  q_focus :: "jsstring option"
  q_type :: QuestionType
  q_prompt :: jsstring
  q_options :: "Opt list option"
  q_correct :: "jsstring list"
  q_explanation :: jsstring
  q_pbq :: "Pbq option"

record SessionConfig =
  pbqCount :: jsnum
  showObjectiveHints :: bool
  difficulty :: Difficulty

record ExamSession =
  sessionId :: jsstring
  core :: CoreId
  createdAtISO :: jsstring
  durationSeconds :: nat
  config :: SessionConfig
  questions :: "Question list"

type_synonym AnswerMap = "jsstring \<rightharpoonup> jsstring list"

text \<open>
  \<open>pbqState\<close> is a \<open>Record<string, any>\<close>; the scoring reads the \<open>order\<close> and
  \<open>pairs\<close> of an entry as \<open>string[] | undefined\<close>.
\<close>

record PbqEntry =
  pe_order :: "jsstring list option"
  pe_pairs :: "jsstring list option"

type_synonym PbqState = "jsstring \<rightharpoonup> PbqEntry"

record ScoredQuestion =
  questionId :: jsstring
  isCorrect :: bool

record DomainScore =
  ds_domain :: jsstring
  ds_correct :: nat
  ds_total :: nat

record ExamResult =
  percent :: jsnum
  correctCount :: nat
  total_er :: nat
  byDomain :: "DomainScore list"
  scored :: "ScoredQuestion list"

section \<open>Scoring (scoring.ts)\<close>

definition setEq :: "jsstring list \<Rightarrow> jsstring list \<Rightarrow> bool" where
  "setEq a b =
     (if length a \<noteq> length b then False
      else let sa = sort a; sb = sort b
           in every_idx (\<lambda>v i. Some v = nth_opt sb i) sa)"

text \<open>
  The accumulator \<open>domainAgg\<close> is an object used as a dictionary: its own keys in
  insertion order, as an association list of \<open>(domain, (correct, total))\<close>. Domains named
  like a member of \<open>Object.prototype\<close> are outside this model of the aggregation.
\<close>

type_synonym DomainAgg = "(jsstring \<times> nat \<times> nat) list"

fun agg_upd :: "jsstring \<Rightarrow> (nat \<times> nat \<Rightarrow> nat \<times> nat) \<Rightarrow> DomainAgg \<Rightarrow> DomainAgg" where
  "agg_upd k f [] = []"
| "agg_upd k f ((k', v) # kvs) = (if k' = k then (k', f v) # kvs else (k', v) # agg_upd k f kvs)"

text \<open>
  \<open>Object.entries\<close> lists the keys that are canonical array indices first, in ascending
  numeric order, then the other keys in insertion order.
\<close>

definition parse_index :: "jsstring \<Rightarrow> nat option" where
  "parse_index s =
     (if s \<noteq> [] \<and> list_all (\<lambda>c. 48 \<le> c \<and> c \<le> 57) s \<and> (s = [48] \<or> hd s \<noteq> 48)
      then let n = foldl (\<lambda>a c. 10 * a + (unat c - 48)) 0 s
           in if n < 4294967295 then Some n else None
      else None)"

definition object_entries :: "(jsstring \<times> 'v) list \<Rightarrow> (jsstring \<times> 'v) list" where
  "object_entries kvs =
     sort_key (\<lambda>(k, v). the (parse_index k)) (filter (\<lambda>(k, v). parse_index k \<noteq> None) kvs)
     @ filter (\<lambda>(k, v). parse_index k = None) kvs"

text \<open>\<open>pbqState?.[id]?.order\<close> and \<open>pbqState?.[id]?.pairs\<close>.\<close>

definition pbq_order :: "PbqState option \<Rightarrow> jsstring \<Rightarrow> jsstring list option" where
  "pbq_order pbqState qid =
     (case pbqState of None \<Rightarrow> None
      | Some st \<Rightarrow> (case st qid of None \<Rightarrow> None | Some e \<Rightarrow> pe_order e))"

definition pbq_pairs :: "PbqState option \<Rightarrow> jsstring \<Rightarrow> jsstring list option" where
  "pbq_pairs pbqState qid =
     (case pbqState of None \<Rightarrow> None
      | Some st \<Rightarrow> (case st qid of None \<Rightarrow> None | Some e \<Rightarrow> pe_pairs e))"

text \<open>
  The string-keyed members that a plain object inherits from \<open>Object.prototype\<close>.
\<close>

definition object_prototype_names :: "jsstring list" where
  "object_prototype_names =
     [str ''constructor'', str ''__defineGetter__'', str ''__defineSetter__'',
      str ''hasOwnProperty'', str ''__lookupGetter__'', str ''__lookupSetter__'',
      str ''isPrototypeOf'', str ''propertyIsEnumerable'', str ''toString'', str ''valueOf'',
      str ''__proto__'', str ''toLocaleString'']"

text \<open>
  \<open>answers[id] ?? []\<close>, where \<open>answers\<close> is a plain object and the map holds its own
  entries. For an id that has no own entry and names a member of \<open>Object.prototype\<close> the
  code reads the inherited member, which is no list of strings (\<open>setEq\<close> then returns
  false, or throws when the lengths agree); such lookups are outside this model, and
  \<open>own_lookups\<close> says that the single and multi questions of a list need none of them.
  The ids that the program gives to questions end in a digit, so they name no such member.
\<close>

definition submitted :: "AnswerMap \<Rightarrow> jsstring \<Rightarrow> jsstring list" where
  "submitted answers qid = (case answers qid of None \<Rightarrow> [] | Some a \<Rightarrow> a)"

definition own_lookups :: "AnswerMap \<Rightarrow> Question list \<Rightarrow> bool" where
  "own_lookups answers qs =
     list_all (\<lambda>q. q_type q \<noteq> PbqOrder \<and> q_type q \<noteq> PbqMatch
                 \<longrightarrow> answers (q_id q) \<noteq> None \<or> q_id q \<notin> set object_prototype_names) qs"

definition questionOk :: "AnswerMap \<Rightarrow> PbqState option \<Rightarrow> Question \<Rightarrow> bool" where
  "questionOk answers pbqState q =
     (if q_type q = PbqOrder then
        (case pbq_order pbqState (q_id q) of
           None \<Rightarrow> False
         | Some order \<Rightarrow>
             length order = length (q_correct q)
             \<and> every_idx (\<lambda>t i. Some t = nth_opt (q_correct q) i) order)
      else if q_type q = PbqMatch then
        (case pbq_pairs pbqState (q_id q) of
           None \<Rightarrow> False
         | Some pairs \<Rightarrow> setEq pairs (q_correct q))
      else
        (let a = submitted answers (q_id q)
         in setEq a (q_correct q)))"

fun scoreLoop ::
  "AnswerMap \<Rightarrow> PbqState option \<Rightarrow> Question list \<Rightarrow> nat \<Rightarrow> ScoredQuestion list \<Rightarrow> DomainAgg
     \<Rightarrow> nat \<times> ScoredQuestion list \<times> DomainAgg" where
  "scoreLoop answers pbqState [] cc sc agg = (cc, sc, agg)"
| "scoreLoop answers pbqState (q # qs) cc sc agg =
     (let agg1 = (if map_of agg (q_domain q) = None then agg @ [(q_domain q, (0, 0))] else agg);
          agg2 = agg_upd (q_domain q) (\<lambda>(c, t). (c, t + 1)) agg1;
          ok = questionOk answers pbqState q;
          cc' = (if ok then cc + 1 else cc);
          agg3 = (if ok then agg_upd (q_domain q) (\<lambda>(c, t). (c + 1, t)) agg2 else agg2)
      in scoreLoop answers pbqState qs cc' (sc @ [\<lparr>questionId = q_id q, isCorrect = ok\<rparr>]) agg3)"

definition scoreExam :: "ExamSession \<Rightarrow> AnswerMap \<Rightarrow> PbqState option \<Rightarrow> ExamResult" where
  "scoreExam session answers pbqState =
     (case scoreLoop answers pbqState (questions session) 0 [] [] of
        (cc, sc, agg) \<Rightarrow>
          let tot = length (questions session);
              pc = js_div (js_round (js_mul (js_div (num cc) (num tot)) (Fin 1000))) (Fin 10)
          in \<lparr>percent = pc, correctCount = cc, total_er = tot,
              byDomain = map (\<lambda>(d, c, t). \<lparr>ds_domain = d, ds_correct = c, ds_total = t\<rparr>)
                           (object_entries agg),
              scored = sc\<rparr>)"

section \<open>Normalizing generated items (sessionPlanner.ts, aiClient.ts)\<close>

definition EXAM_QUESTION_COUNT :: nat where
  "EXAM_QUESTION_COUNT = 90"

text \<open>
  \<open>GeneratedItem\<close> of aiClient.ts: the common fields and one of three bodies, chosen by
  the \<open>type\<close> tag. Indices are JavaScript numbers.
\<close>

datatype ChoiceType = CSingle | CMulti

datatype RawBody =
    RawChoice ChoiceType "jsstring list" "jsnum list"
  | RawOrder "jsstring list" "jsnum list"
  | RawMatch jsstring jsstring "jsstring list" "jsstring list" "(jsnum \<times> jsnum) list"

record RawItem =
  r_domain :: jsstring
  r_objectiveId :: jsstring
  r_objectiveTitle :: jsstring
  r_objectiveBullets :: "jsstring list"
  r_prompt :: jsstring
  r_explanation :: jsstring
  r_body :: RawBody

text \<open>
  \<open>xs[n]\<close> for a number \<open>n\<close>: the element when \<open>n\<close> is a non-negative integer below the
  length, \<open>undefined\<close> otherwise (negative, fractional, infinite or NaN).
\<close>

definition js_index :: "'a list \<Rightarrow> jsnum \<Rightarrow> 'a option" where
  "js_index xs n =
     (case n of
        Fin r \<Rightarrow> (if 0 \<le> r \<and> of_int \<lfloor>r\<rfloor> = r then nth_opt xs (nat \<lfloor>r\<rfloor>) else None)
      | _ \<Rightarrow> None)"

text \<open>\<open>ts.map((t, i) => ({ id: `<pre>${i + 1}`, text: String(t) }))\<close>.\<close>

definition with_ids :: "jsstring \<Rightarrow> jsstring list \<Rightarrow> Opt list" where
  "with_ids pre ts =
     map (\<lambda>(t, i). \<lparr>opt_id = pre @ dec (i + 1), opt_text = t\<rparr>) (zip ts [0..<length ts])"

text \<open>\<open>s.split(".")[0]\<close>.\<close>

definition before_dot :: "jsstring \<Rightarrow> jsstring" where
  "before_dot s = takeWhile (\<lambda>c. c \<noteq> 46) s"

text \<open>\<open>a || b\<close> on strings: the empty string is falsy.\<close>

definition or_else :: "jsstring \<Rightarrow> jsstring \<Rightarrow> jsstring" where
  "or_else a b = (if a \<noteq> [] then a else b)"

text \<open>\<open>`${o?.text}`\<close>: the text, or the word \<open>undefined\<close>.\<close>

definition text_or_undefined :: "Opt option \<Rightarrow> jsstring" where
  "text_or_undefined e = (case e of None \<Rightarrow> str ''undefined'' | Some x \<Rightarrow> opt_text x)"

definition startsWith :: "jsstring \<Rightarrow> jsstring \<Rightarrow> bool" where
  "startsWith x p = (take (length p) x = p)"

text \<open>
  One iteration of the loop of \<open>normalizeQuestions\<close>. The displayed order of a pbq-order
  item comes from \<open>sort(() => Math.random() - 0.5)\<close>, whose result depends on the random
  source and the engine: it is the parameter \<open>shuf\<close>, indexed by the item's number.
\<close>

definition normalizeItem ::
  "CoreId \<Rightarrow> jsstring \<Rightarrow> (nat \<Rightarrow> Opt list \<Rightarrow> Opt list) \<Rightarrow> nat \<Rightarrow> RawItem \<Rightarrow> Question" where
  "normalizeItem cr sid shuf seq it =
     (let ident = sid @ str ''-q-'' @ dec seq;
          objective = r_objectiveId it;
          objectiveTitle = or_else (r_objectiveTitle it) (str ''Objective '' @ objective);
          objectiveBullets = r_objectiveBullets it;
          dom = or_else (r_domain it) (before_dot objective @ str ''.0'');
          prompt = or_else (r_prompt it) [];
          explanation = or_else (r_explanation it) (str ''Review the objective and rationale.'')
      in case r_body it of
           RawChoice ct opts correctIndices \<Rightarrow>
             (let options = with_ids (str ''o'') opts;
                  correct = filter (\<lambda>x. x \<noteq> [])
                              (List.map_filter (\<lambda>i. map_option opt_id (js_index options i)) correctIndices)
              in \<lparr>q_id = ident, q_core = cr, q_domain = dom, q_objective = objective,
                  q_objectiveTitle = objectiveTitle, q_objectiveBullets = objectiveBullets,
                  q_focus = None, q_type = (case ct of CSingle \<Rightarrow> Single | CMulti \<Rightarrow> Multi),
                  q_prompt = prompt, q_options = Some options, q_correct = correct,
                  q_explanation = explanation, q_pbq = None\<rparr>)
         | RawOrder orderItems correctOrder \<Rightarrow>
             (let baseItems = with_ids (str ''s'') orderItems;
                  shuffled = shuf seq baseItems;
                  correct = filter (\<lambda>x. x \<noteq> [])
                              (List.map_filter (\<lambda>i. map_option opt_text (js_index baseItems i)) correctOrder)
              in \<lparr>q_id = ident, q_core = cr, q_domain = dom, q_objective = objective,
                  q_objectiveTitle = objectiveTitle, q_objectiveBullets = objectiveBullets,
                  q_focus = None, q_type = PbqOrder,
                  q_prompt = prompt, q_options = None, q_correct = correct,
                  q_explanation = explanation, q_pbq = Some (PbqOrderKind shuffled)\<rparr>)
         | RawMatch leftLabel rightLabel lefts rights correctPairs \<Rightarrow>
             (let left = with_ids (str ''l'') lefts;
                  right = with_ids (str ''r'') rights;
                  correct = filter (\<lambda>x. \<not> startsWith x (str ''undefined''))
                              (map (\<lambda>(li, ri). text_or_undefined (js_index left li) @ str ''=>''
                                                @ text_or_undefined (js_index right ri)) correctPairs)
              in \<lparr>q_id = ident, q_core = cr, q_domain = dom, q_objective = objective,
                  q_objectiveTitle = objectiveTitle, q_objectiveBullets = objectiveBullets,
                  q_focus = None, q_type = PbqMatch,
                  q_prompt = prompt, q_options = None, q_correct = correct,
                  q_explanation = explanation,
                  q_pbq = Some (PbqMatchKind (or_else leftLabel (str ''Left''))
                                  (or_else rightLabel (str ''Right'')) left right)\<rparr>))"

fun normalizeLoop ::
  "CoreId \<Rightarrow> jsstring \<Rightarrow> (nat \<Rightarrow> Opt list \<Rightarrow> Opt list) \<Rightarrow> nat \<Rightarrow> Question list \<Rightarrow> RawItem list
     \<Rightarrow> Question list" where
  "normalizeLoop cr sid shuf seq out [] = out"
| "normalizeLoop cr sid shuf seq out (it # items) =
     normalizeLoop cr sid shuf (seq + 1) (out @ [normalizeItem cr sid shuf (seq + 1) it]) items"

definition normalizeQuestions ::
  "CoreId \<Rightarrow> jsstring \<Rightarrow> (nat \<Rightarrow> Opt list \<Rightarrow> Opt list) \<Rightarrow> RawItem list \<Rightarrow> Question list" where
  "normalizeQuestions cr sid shuf items = normalizeLoop cr sid shuf 0 [] items"

text \<open>
  The end of \<open>runGeneration\<close> (App.tsx), once every batch is collected: the normalized
  questions are cut to the session length, and a count other than the session length
  throws; the handler keeps the message as \<open>lastError\<close> and shows it.
\<close>

datatype GenOutcome = ExamStarted "Question list" | GenPaused jsstring

definition runGeneration_assemble ::
  "CoreId \<Rightarrow> jsstring \<Rightarrow> (nat \<Rightarrow> Opt list \<Rightarrow> Opt list) \<Rightarrow> RawItem list \<Rightarrow> GenOutcome" where
  "runGeneration_assemble cr sid shuf items =
     (let normalized = take EXAM_QUESTION_COUNT (normalizeQuestions cr sid shuf items)
      in if length normalized \<noteq> EXAM_QUESTION_COUNT
         then GenPaused (str ''Generator returned '' @ dec (length normalized)
                         @ str '' questions; expected '' @ dec EXAM_QUESTION_COUNT @ str ''.'')
         else ExamStarted normalized)"

section \<open>The generation endpoint (api/generate.ts)\<close>

subsection \<open>JSON values and errors\<close>

datatype jsval =
    JNull
  | JBool bool
  | JNum jsnum
  | JStr jsstring
  | JArr "jsval list"
  | JObj "(jsstring \<times> jsval) list"

text \<open>
  The thrown errors. \<open>Untyped\<close> is not an exception: it marks a run that would continue
  with \<open>undefined\<close> where the declared type is a string or an object, which the typed
  model cannot hold; it arises only from an index out of range (see \<open>js_index\<close>).
\<close>

datatype js_error = Error jsstring | SyntaxError jsstring | TypeError jsstring | Untyped

text \<open>\<open>e?.message || String(e)\<close> for a thrown error.\<close>

definition err_text :: "js_error \<Rightarrow> jsstring" where
  "err_text e =
     (case e of
        Error m \<Rightarrow> or_else m (str ''Error'')
      | SyntaxError m \<Rightarrow> or_else m (str ''SyntaxError'')
      | TypeError m \<Rightarrow> or_else m (str ''TypeError'')
      | Untyped \<Rightarrow> str ''undefined'')"

text \<open>
  Reading a property of an object made by \<open>JSON.parse\<close> (own properties, keys distinct);
  the names read below are neither array indices nor \<open>length\<close>, so any other value
  gives \<open>undefined\<close>.
\<close>

definition js_prop :: "jsval \<Rightarrow> jsstring \<Rightarrow> jsval option" where
  "js_prop v k = (case v of JObj kvs \<Rightarrow> map_of kvs k | _ \<Rightarrow> None)"

text \<open>\<open>k in v\<close> for an object or an array.\<close>

definition has_key :: "jsval \<Rightarrow> jsstring \<Rightarrow> bool" where
  "has_key v k =
     (case v of
        JObj kvs \<Rightarrow> k \<in> set (map fst kvs)
      | JArr xs \<Rightarrow> k = str ''length'' \<or> (case parse_index k of Some i \<Rightarrow> i < length xs | None \<Rightarrow> False)
      | _ \<Rightarrow> False)"

text \<open>\<open>Array.isArray(x) && lo <= x.length && x.length <= hi\<close> for a property that may be missing.\<close>

definition array_len :: "jsval option \<Rightarrow> nat option" where
  "array_len v = (case v of Some (JArr xs) \<Rightarrow> Some (length xs) | _ \<Rightarrow> None)"

definition len_between :: "jsval option \<Rightarrow> nat \<Rightarrow> nat \<Rightarrow> bool" where
  "len_between v lo hi = (case array_len v of Some n \<Rightarrow> lo \<le> n \<and> n \<le> hi | None \<Rightarrow> False)"

subsection \<open>validateBatch\<close>

definition reqBase :: "jsstring list" where
  "reqBase = [str ''type'', str ''domain'', str ''objectiveId'', str ''objectiveTitle'',
              str ''objectiveBullets'', str ''prompt'', str ''explanation'']"

definition validateItem :: "jsval \<Rightarrow> js_error + unit" where
  "validateItem q =
     (if \<not> (case q of JObj _ \<Rightarrow> True | JArr _ \<Rightarrow> True | _ \<Rightarrow> False)
      then Inl (Error (str ''Each item must be an object.''))
      else case find (\<lambda>k. \<not> has_key q k) reqBase of
        Some k \<Rightarrow> Inl (Error (str ''Missing required field '' @ [39] @ k @ [39] @ str ''.''))
      | None \<Rightarrow>
         (let t = js_prop q (str ''type'') in
          if t \<notin> set (map (\<lambda>n. Some (JStr n))
                          [str ''single'', str ''multi'', str ''pbq-order'', str ''pbq-match''])
          then Inl (Error (str ''Invalid type.''))
          else if array_len (js_prop q (str ''objectiveBullets'')) = None
          then Inl (Error (str ''objectiveBullets must be an array of strings.''))
          else if t = Some (JStr (str ''single'')) \<or> t = Some (JStr (str ''multi'')) then
            (if \<not> len_between (js_prop q (str ''options'')) 4 6
             then Inl (Error (str ''options must be 4..6 strings.''))
             else if \<not> len_between (js_prop q (str ''correctIndices'')) 1 3
             then Inl (Error (str ''correctIndices must be 1..3 integers.''))
             else Inr ())
          else if t = Some (JStr (str ''pbq-order'')) then
            (if \<not> len_between (js_prop q (str ''orderItems'')) 4 8
             then Inl (Error (str ''orderItems must be 4..8 strings.''))
             else if array_len (js_prop q (str ''correctOrder'')) = None
                     \<or> array_len (js_prop q (str ''correctOrder'')) \<noteq> array_len (js_prop q (str ''orderItems''))
             then Inl (Error (str ''correctOrder length must match orderItems length.''))
             else Inr ())
          else if t = Some (JStr (str ''pbq-match'')) then
            (if \<not> len_between (js_prop q (str ''left'')) 3 8
             then Inl (Error (str ''left must be 3..8 strings.''))
             else if \<not> len_between (js_prop q (str ''right'')) 3 8
             then Inl (Error (str ''right must be 3..8 strings.''))
             else if (case array_len (js_prop q (str ''correctPairs'')) of Some n \<Rightarrow> n < 1 | None \<Rightarrow> True)
             then Inl (Error (str ''correctPairs must be a non-empty array.''))
             else Inr ())
          else Inr ()))"

fun validateItems :: "jsval list \<Rightarrow> js_error + unit" where
  "validateItems [] = Inr ()"
| "validateItems (q # qs) = (case validateItem q of Inl e \<Rightarrow> Inl e | Inr _ \<Rightarrow> validateItems qs)"

text \<open>\<open>validateBatch\<close>, for a request of \<open>n\<close> plan items.\<close>

definition validateBatch :: "nat \<Rightarrow> jsval \<Rightarrow> js_error + jsval list" where
  "validateBatch n obj =
     (case obj of
        JObj kvs \<Rightarrow>
          (if map fst kvs \<noteq> [str ''items'']
           then Inl (Error (str ''Top-level must contain only '' @ [39] @ str ''items'' @ [39] @ str ''.''))
           else case map_of kvs (str ''items'') of
             Some (JArr xs) \<Rightarrow>
               (if length xs \<noteq> n
                then Inl (Error ([39] @ str ''items'' @ [39] @ str '' length '' @ dec (length xs)
                                 @ str '' !== expected '' @ dec n @ str ''.''))
                else case validateItems xs of Inl e \<Rightarrow> Inl e | Inr _ \<Rightarrow> Inr xs)
           | _ \<Rightarrow> Inl (Error ([39] @ str ''items'' @ [39] @ str '' must be an array.'')))
      | _ \<Rightarrow> Inl (Error (str ''Top-level JSON must be an object.'')))"

subsection \<open>extractJsonObject\<close>

text \<open>\<open>JSON.parse\<close> is the platform's parser, a parameter: a value, or the message of its SyntaxError.\<close>

type_synonym json_parser = "jsstring \<Rightarrow> jsstring + jsval"

definition extractJsonObject :: "json_parser \<Rightarrow> jsstring \<Rightarrow> js_error + jsval" where
  "extractJsonObject parse text =
     (if 123 \<notin> set text \<or> 125 \<notin> set text
         \<or> length text - 1 - length (takeWhile (\<lambda>c. c \<noteq> 125) (rev text))
              \<le> length (takeWhile (\<lambda>c. c \<noteq> 123) text)
      then Inl (Error (str ''Model did not return a JSON object.''))
      else let first = length (takeWhile (\<lambda>c. c \<noteq> 123) text);
               last = length text - 1 - length (takeWhile (\<lambda>c. c \<noteq> 125) (rev text));
               slice = take (last + 1 - first) (drop first text)
           in case parse slice of Inl m \<Rightarrow> Inl (SyntaxError m) | Inr v \<Rightarrow> Inr v)"

subsection \<open>Requests and responses\<close>

record PlanItem =
  domainNumber :: jsstring
  domainLabel :: jsstring
  objectiveId :: jsstring
  objectiveTitle :: jsstring
  objectiveBullets :: "jsstring list"
  pi_type :: QuestionType

text \<open>White space and line terminators, as \<open>trim\<close> and the regular expression class \<open>\s\<close> see them.\<close>

definition js_space :: "16 word \<Rightarrow> bool" where
  "js_space c =
     (c \<in> {9, 10, 11, 12, 13, 32, 160, 5760, 8232, 8233, 8239, 8287, 12288, 65279}
      \<or> (8192 \<le> c \<and> c \<le> 8202))"

definition js_trim :: "jsstring \<Rightarrow> jsstring" where
  "js_trim s = rev (dropWhile js_space (rev (dropWhile js_space s)))"

definition join_lines :: "jsstring list \<Rightarrow> jsstring" where
  "join_lines ls = (case ls of [] \<Rightarrow> [] | l # rest \<Rightarrow> l @ concat (map (\<lambda>x. 10 # x) rest))"

definition contract :: "nat \<Rightarrow> jsstring" where
  "contract n = join_lines
     [str ''Return STRICT JSON (no markdown, no code fences).'',
      str ''Top-level must be: {'' @ [34] @ str ''items'' @ [34] @ str '': [...]}'',
      str ''items must have exactly '' @ dec n @ str '' elements.'',
      str ''Each item MUST include:'',
      str ''- type: one of '' @ [39] @ str ''single'' @ [39] @ str '' | '' @ [39] @ str ''multi'' @ [39]
        @ str '' | '' @ [39] @ str ''pbq-order'' @ [39] @ str '' | '' @ [39] @ str ''pbq-match'' @ [39],
      str ''- domain: string (e.g., '' @ [39] @ str ''1.0 Mobile Devices'' @ [39] @ str '')'',
      str ''- objectiveId: string (e.g., '' @ [39] @ str ''1.1'' @ [39] @ str '')'',
      str ''- objectiveTitle: string'',
      str ''- objectiveBullets: string[]'',
      str ''- prompt: string'',
      str ''- explanation: string'',
      [],
      str ''Type-specific fields:'',
      str ''- single/multi: options: string[4..6], correctIndices: int[1..3] (0-based, within options length)'',
      str ''- pbq-order: orderItems: string[4..8], correctOrder: int[] (0-based permutation same length as orderItems)'',
      str ''- pbq-match: left: string[3..8], right: string[3..8], correctPairs: {leftIndex:int,rightIndex:int}[]'',
      [],
      str ''Do not include any additional top-level keys besides '' @ [39] @ str ''items'' @ [39] @ str ''.'']"

definition baseSystem :: "nat \<Rightarrow> jsstring list" where
  "baseSystem n =
     [str ''You are a CompTIA A+ (220-1201 / 220-1202) item writer.'',
      str ''Write ORIGINAL practice questions aligned to the provided objective. Do NOT reproduce copyrighted exam content.'',
      str ''Keep prompts concise and realistic (help-desk / technician scenarios).'',
      str ''Difficulty rules:'',
      str ''- easy: straightforward, minimal ambiguity; distractors clearly wrong; no tricky wording.'',
      str ''- medium: exam-like; moderate scenario detail; plausible distractors; one clear best answer.'',
      str ''- hard: deeper reasoning within the objective; closer distractors; multi-step scenarios; avoid trick questions.'',
      [],
      str ''Output format requirements:'',
      contract n]"

record ReqItem =
  ri_type :: QuestionType
  ri_domain :: jsstring
  ri_objectiveId :: jsstring
  ri_objectiveTitle :: jsstring
  ri_objectiveBullets :: "jsstring list"

text \<open>
  The request sent to the backend. The user message is \<open>JSON.stringify(userPayload)\<close>; the
  payload is kept structured here (purpose, difficulty, items).
\<close>

record OpenAIRequest =
  rq_endpoint :: jsstring
  rq_authorization :: jsstring
  rq_model :: jsstring
  rq_system :: jsstring
  rq_purpose :: jsstring
  rq_difficulty :: Difficulty
  rq_items :: "ReqItem list"
  rq_temperature :: jsnum
  rq_max_output_tokens :: nat

text \<open>
  What the code reads of a response: \<open>ok\<close>, \<open>status\<close>, \<open>statusText\<close>, the outcome of
  \<open>text()\<close> (\<open>None\<close> when it rejects) and the outcome of \<open>json()\<close>.
\<close>

record HttpResponse =
  hr_ok :: bool
  hr_status :: nat
  hr_statusText :: jsstring
  hr_text :: "jsstring option"
  hr_json :: "js_error + jsval"

text \<open>
  The backend is outside the program: \<open>fetch\<close> is a parameter that, from the state of
  the world and a request, gives a response (or a rejection) and the next state.
\<close>

type_synonym 'w fetcher = "'w \<Rightarrow> OpenAIRequest \<Rightarrow> (js_error + HttpResponse) \<times> 'w"

text \<open>The text of a Responses result: \<open>output_text\<close>, or the concatenated \<open>output_text\<close> parts.\<close>

definition content_text :: "jsval \<Rightarrow> jsstring" where
  "content_text c =
     (case (js_prop c (str ''type''), js_prop c (str ''text'')) of
        (Some (JStr t), Some (JStr x)) \<Rightarrow> (if t = str ''output_text'' then x else [])
      | _ \<Rightarrow> [])"

definition output_texts :: "jsval \<Rightarrow> jsstring" where
  "output_texts o' =
     (case js_prop o' (str ''content'') of
        Some (JArr cs) \<Rightarrow> concat (map content_text cs)
      | _ \<Rightarrow> [])"

definition extract_text :: "jsval \<Rightarrow> js_error + jsstring" where
  "extract_text data =
     (case data of
        JNull \<Rightarrow> Inl (TypeError (str ''Cannot read properties of null''))
      | _ \<Rightarrow>
        (case js_prop data (str ''output_text'') of
           Some (JStr t) \<Rightarrow> Inr t
         | _ \<Rightarrow>
           (case js_prop data (str ''output'') of
              Some (JArr os) \<Rightarrow> Inr (concat (map output_texts os))
            | _ \<Rightarrow> Inr [])))"

subsection \<open>callOpenAI\<close>

definition request ::
  "jsstring \<Rightarrow> jsstring \<Rightarrow> PlanItem list \<Rightarrow> Difficulty \<Rightarrow> jsstring list \<Rightarrow> OpenAIRequest" where
  "request key model items diff system =
     \<lparr>rq_endpoint = str ''https://api.openai.com/v1/responses'',
      rq_authorization = str ''Bearer '' @ key,
      rq_model = model,
      rq_system = join_lines system,
      rq_purpose = str ''Generate a batch of CompTIA A+ practice questions.'',
      rq_difficulty = diff,
      rq_items = map (\<lambda>it. \<lparr>ri_type = pi_type it,
                              ri_domain = js_trim (domainNumber it @ [32] @ domainLabel it),
                              ri_objectiveId = objectiveId it,
                              ri_objectiveTitle = objectiveTitle it,
                              ri_objectiveBullets = objectiveBullets it\<rparr>) items,
      rq_temperature = round64 (6 / 10),
      rq_max_output_tokens = 3500\<rparr>"

text \<open>The instructions of an attempt: from the second attempt on, the last error is appended.\<close>

definition system_lines :: "nat \<Rightarrow> nat \<Rightarrow> jsstring option \<Rightarrow> jsstring list" where
  "system_lines n attempt lastErr =
     baseSystem n
     @ (case lastErr of
          Some m \<Rightarrow>
            (if attempt = 1 \<and> m \<noteq> []
             then [[], str ''Your previous output was invalid.'',
                   str ''Fix the JSON and re-output per contract. Error: '' @ take 500 m]
             else [])
        | None \<Rightarrow> [])"

text \<open>
  One pass through the body of the loop: the call returns, or throws, or the output is
  invalid and the \<open>catch\<close> keeps the message for the next attempt.
\<close>

datatype attempt_result = Returned "jsval list" | Thrown js_error | Invalid jsstring

text \<open>The body of the \<open>try\<close>: \<open>validateBatch(extractJsonObject(text))\<close>.\<close>

definition checkOutput :: "json_parser \<Rightarrow> nat \<Rightarrow> jsstring \<Rightarrow> js_error + jsval list" where
  "checkOutput parse n text =
     (case extractJsonObject parse text of
        Inl e \<Rightarrow> Inl e
      | Inr obj \<Rightarrow> validateBatch n obj)"

definition attemptOnce ::
  "json_parser \<Rightarrow> 'w fetcher \<Rightarrow> jsstring \<Rightarrow> jsstring \<Rightarrow> PlanItem list \<Rightarrow> Difficulty
     \<Rightarrow> nat \<Rightarrow> jsstring option \<Rightarrow> 'w \<Rightarrow> attempt_result \<times> 'w \<times> OpenAIRequest" where
  "attemptOnce parse fetch key model items diff attempt lastErr w =
     (let req = request key model items diff (system_lines (length items) attempt lastErr)
      in case fetch w req of
           (Inl e, w') \<Rightarrow> (Thrown e, w', req)
         | (Inr resp, w') \<Rightarrow>
             (if \<not> hr_ok resp
              then (Thrown (Error (str ''OpenAI error '' @ dec (hr_status resp) @ str '': ''
                                   @ or_else (case hr_text resp of None \<Rightarrow> [] | Some t \<Rightarrow> t)
                                       (hr_statusText resp))), w', req)
              else case hr_json resp of
                Inl e \<Rightarrow> (Thrown e, w', req)
              | Inr data \<Rightarrow>
                 (case extract_text data of
                    Inl e \<Rightarrow> (Thrown e, w', req)
                  | Inr text \<Rightarrow>
                     (case checkOutput parse (length items) text of
                        Inl e \<Rightarrow> (Invalid (err_text e), w', req)
                      | Inr out \<Rightarrow> (Returned out, w', req)))))"

text \<open>
  The loop \<open>for (attempt = 0; attempt < 2; attempt++)\<close> and the final \<open>throw\<close>. The result
  comes with the final state of the world and the requests sent, in order.
\<close>

function callLoop ::
  "json_parser \<Rightarrow> 'w fetcher \<Rightarrow> jsstring \<Rightarrow> jsstring \<Rightarrow> PlanItem list \<Rightarrow> Difficulty
     \<Rightarrow> nat \<Rightarrow> jsstring option \<Rightarrow> 'w \<Rightarrow> OpenAIRequest list
     \<Rightarrow> (js_error + jsval list) \<times> 'w \<times> OpenAIRequest list" where
  "callLoop parse fetch key model items diff attempt lastErr w sent =
     (if attempt < 2 then
        (case attemptOnce parse fetch key model items diff attempt lastErr w of
           (Returned out, w', req) \<Rightarrow> (Inr out, w', sent @ [req])
         | (Thrown e, w', req) \<Rightarrow> (Inl e, w', sent @ [req])
         | (Invalid m, w', req) \<Rightarrow>
             callLoop parse fetch key model items diff (attempt + 1) (Some m) w' (sent @ [req]))
      else (Inl (Error (str ''Model returned invalid JSON after retries: ''
                        @ (case lastErr of None \<Rightarrow> str ''null'' | Some m \<Rightarrow> m))), w, sent))"
  by pat_completeness auto
termination
  by (relation "measure (\<lambda>(parse, fetch, key, model, items, diff, attempt, lastErr, w, sent). 2 - attempt)")
    auto

declare callLoop.simps [simp del]

definition callOpenAI ::
  "json_parser \<Rightarrow> 'w fetcher \<Rightarrow> jsstring option \<Rightarrow> jsstring \<Rightarrow> PlanItem list \<Rightarrow> Difficulty \<Rightarrow> 'w
     \<Rightarrow> (js_error + jsval list) \<times> 'w \<times> OpenAIRequest list" where
  "callOpenAI parse fetch key_env model items diff w =
     (case key_env of
        None \<Rightarrow> (Inl (Error (str ''Missing OPENAI_API_KEY (set it in Vercel project environment variables).'')), w, [])
      | Some key \<Rightarrow>
          (if key = []
           then (Inl (Error (str ''Missing OPENAI_API_KEY (set it in Vercel project environment variables).'')), w, [])
           else callLoop parse fetch key model items diff 0 None w []))"

section \<open>The objective catalogue (objectives.ts)\<close>

record ObjectiveMeta =
  om_domain :: jsstring
  om_title :: jsstring
  om_bullets :: "jsstring list"

text \<open>
  \<open>OBJECTIVES\<close> is generated data that is not among the sources: it is a parameter. For
  each core it gives the entries of the object in the order of \<open>Object.keys\<close>.
\<close>

type_synonym catalogue = "CoreId \<Rightarrow> (jsstring \<times> ObjectiveMeta) list"

definition getObjectiveMeta :: "catalogue \<Rightarrow> CoreId \<Rightarrow> jsstring \<Rightarrow> ObjectiveMeta option" where
  "getObjectiveMeta cat cr oid = map_of (cat cr) oid"

definition listObjectiveIds :: "catalogue \<Rightarrow> CoreId \<Rightarrow> jsstring list" where
  "listObjectiveIds cat cr = map fst (cat cr)"

definition objectiveDomainNumber :: "jsstring \<Rightarrow> jsstring" where
  "objectiveDomainNumber oid = before_dot oid @ str ''.0''"

definition listObjectivesByDomain :: "catalogue \<Rightarrow> CoreId \<Rightarrow> jsstring \<Rightarrow> jsstring list" where
  "listObjectivesByDomain cat cr dn =
     filter (\<lambda>i. objectiveDomainNumber i = dn) (listObjectiveIds cat cr)"

section \<open>The offline synthesizer (offlineGenerator.ts)\<close>

subsection \<open>The seeded generator\<close>

definition hashStringToSeed :: "jsstring \<Rightarrow> 32 word" where
  "hashStringToSeed s = foldl (\<lambda>h c. (h XOR ucast c) * 16777619) 2166136261 s"

text \<open>
  \<open>ToUint32\<close>: the integer part modulo \<open>2 ^ 32\<close>; zero for an infinity or NaN. \<open>ToInt32\<close>
  has the same bits, and \<open>Math.imul\<close>, \<open>^\<close>, \<open>|\<close> and \<open>>>>\<close> are the operations on
  32-bit words.
\<close>

definition to_uint32 :: "jsnum \<Rightarrow> 32 word" where
  "to_uint32 x =
     (case x of
        Fin r \<Rightarrow> word_of_int (if 0 \<le> r then \<lfloor>r\<rfloor> else - \<lfloor>- r\<rfloor>)
      | _ \<Rightarrow> 0)"

text \<open>The state of the generator is the variable \<open>t\<close> of \<open>mulberry32\<close>, a Number.\<close>

type_synonym rng = jsnum

definition mulberry32 :: "32 word \<Rightarrow> rng" where
  "mulberry32 seed = Fin (of_nat (unat seed))"

definition rng_next :: "rng \<Rightarrow> jsnum \<times> rng" where
  "rng_next t =
     (let t' = js_add t (Fin 1831565813);
          x0 = to_uint32 t';
          x1 = (x0 XOR drop_bit 15 x0) * (x0 OR 1);
          x2 = x1 XOR (x1 + (x1 XOR drop_bit 7 x1) * (x1 OR 61));
          y = x2 XOR drop_bit 14 x2
      in (js_div (Fin (of_nat (unat y))) (Fin 4294967296), t'))"

text \<open>\<open>Math.floor(rng.next() * n)\<close>, with the generator after the draw.\<close>

definition draw_index :: "rng \<Rightarrow> nat \<Rightarrow> jsnum \<times> rng" where
  "draw_index g n = (case rng_next g of (r, g') \<Rightarrow> (js_floor (js_mul r (num n)), g'))"

definition pickOne :: "rng \<Rightarrow> 'a list \<Rightarrow> 'a option \<times> rng" where
  "pickOne g arr = (case draw_index g (length arr) of (j, g') \<Rightarrow> (js_index arr j, g'))"

text \<open>
  The exchange \<open>[a[i], a[j]] = [a[j], a[i]]\<close> for \<open>i\<close> in range. The drawn \<open>j\<close> is an
  integer from 0 to \<open>i\<close>, since \<open>next()\<close> is below 1; for any other \<open>j\<close> the list is
  left as it is here.
\<close>

definition swap :: "nat \<Rightarrow> jsnum \<Rightarrow> 'a list \<Rightarrow> 'a list" where
  "swap i j a =
     (case j of
        Fin r \<Rightarrow> (if 0 \<le> r \<and> of_int \<lfloor>r\<rfloor> = r \<and> nat \<lfloor>r\<rfloor> < length a
                  then (a[i := a ! nat \<lfloor>r\<rfloor>])[nat \<lfloor>r\<rfloor> := a ! i] else a)
      | _ \<Rightarrow> a)"

fun shuffleLoop :: "nat \<Rightarrow> rng \<Rightarrow> 'a list \<Rightarrow> 'a list \<times> rng" where
  "shuffleLoop 0 g a = (a, g)"
| "shuffleLoop (Suc i) g a =
     (case draw_index g (Suc i + 1) of (j, g') \<Rightarrow> shuffleLoop i g' (swap (Suc i) j a))"

definition shuffle :: "rng \<Rightarrow> 'a list \<Rightarrow> 'a list \<times> rng" where
  "shuffle g arr = shuffleLoop (length arr - 1) g arr"

definition takeDistinct :: "rng \<Rightarrow> 'a list \<Rightarrow> nat \<Rightarrow> 'a list \<times> rng" where
  "takeDistinct g arr n =
     (if n \<le> 0 then ([], g)
      else case shuffle g arr of (s, g') \<Rightarrow> (take (min n (length arr)) s, g'))"

subsection \<open>Text helpers\<close>

definition makeOptionIds :: "nat \<Rightarrow> jsstring list" where
  "makeOptionIds n = map (\<lambda>i. if i < 26 then [of_nat (65 + i)] else str ''O'' @ dec (i + 1)) [0..<n]"

text \<open>\<open>s.replace(/\s+/g, " ")\<close>: the flag tells whether the previous code unit was white space.\<close>

fun collapse_ws :: "bool \<Rightarrow> jsstring \<Rightarrow> jsstring" where
  "collapse_ws prev [] = []"
| "collapse_ws prev (c # cs) =
     (if js_space c then (if prev then collapse_ws True cs else 32 # collapse_ws True cs)
      else c # collapse_ws False cs)"

definition sanitizeText :: "jsstring \<Rightarrow> jsstring" where
  "sanitizeText s = js_trim (collapse_ws False s)"

text \<open>\<open>String(n).padStart(3, "0")\<close>.\<close>

definition padStart3 :: "jsstring \<Rightarrow> jsstring" where
  "padStart3 s = replicate (3 - length s) 48 @ s"

definition core_str :: "CoreId \<Rightarrow> jsstring" where
  "core_str cr = (case cr of Core1201 \<Rightarrow> str ''220-1201'' | Core1202 \<Rightarrow> str ''220-1202'')"

definition difficulty_str :: "Difficulty \<Rightarrow> jsstring" where
  "difficulty_str d = (case d of Easy \<Rightarrow> str ''easy'' | Medium \<Rightarrow> str ''medium'' | Hard \<Rightarrow> str ''hard'')"

subsection \<open>PBQ templates\<close>

text \<open>
  An order template: id, title, prompt, items. A match template: id, title, prompt, the
  labels of the two columns, pairs.
\<close>

datatype Template =
    OrderT jsstring jsstring jsstring "jsstring list"
  | MatchT jsstring jsstring jsstring jsstring jsstring "(jsstring \<times> jsstring) list"

definition templates_common :: "Template list" where
  "templates_common =
     [OrderT (str ''pbq-troubleshoot-order'') (str ''Troubleshooting methodology'')
         (str ''Put the standard troubleshooting steps in the correct order.'')
         [str ''Identify the problem'',
          str ''Establish a theory of probable cause'',
          str ''Test the theory to determine the cause'',
          str ''Establish a plan of action and implement the solution'',
          str ''Verify full system functionality and implement preventive measures'',
          str ''Document findings, actions, and outcomes'']]"

definition templates_core1 :: "Template list" where
  "templates_core1 =
     [MatchT (str ''pbq-ports-match'') (str ''Ports and protocols'')
         (str ''Match each port number to the correct protocol/service.'')
         (str ''Port'') (str ''Service'')
         [(str ''22'', str ''SSH''),
          (str ''53'', str ''DNS''),
          (str ''80'', str ''HTTP''),
          (str ''443'', str ''HTTPS'')],
      MatchT (str ''pbq-wifi-match'') (str ''Wi'' @ [8209] @ str ''Fi standards'')
         (str ''Match each Wi'' @ [8209] @ str ''Fi generation to the correct standard label.'')
         (str ''Generation'') (str ''Standard'')
         [(str ''Wi'' @ [8209] @ str ''Fi 5'', str ''802.11ac''),
          (str ''Wi'' @ [8209] @ str ''Fi 6'', str ''802.11ax''),
          (str ''Wi'' @ [8209] @ str ''Fi 4'', str ''802.11n''),
          (str ''Wi'' @ [8209] @ str ''Fi 6E'', str ''802.11ax (6 GHz)'')],
      OrderT (str ''pbq-router-harden'') (str ''Router hardening'')
         (str ''Order the following router hardening actions from first to last.'')
         [str ''Change default admin credentials'',
          str ''Update router firmware'',
          str ''Disable WPS if not required'',
          str ''Configure WPA2/WPA3 and set a strong passphrase'',
          str ''Disable remote administration (unless required)'',
          str ''Document settings and store backup config securely''],
      MatchT (str ''pbq-cable-match'') (str ''Cables and connectors'')
         (str ''Match the connector to the cable type.'')
         (str ''Connector'') (str ''Cable'')
         [(str ''RJ'' @ [8209] @ str ''45'', str ''Ethernet (twisted pair)''),
          (str ''LC'', str ''Fiber optic (SFP transceiver)''),
          (str ''BNC'', str ''Coaxial''),
          (str ''USB'' @ [8209] @ str ''C'', str ''USB'')]]"

definition templates_core2 :: "Template list" where
  "templates_core2 =
     [MatchT (str ''pbq-windows-tools'') (str ''Windows tools'')
         (str ''Match each tool to the best use case.'')
         (str ''Tool'') (str ''Use case'')
         [(str ''Task Manager'', str ''View/stop processes and performance''),
          (str ''Event Viewer'', str ''Review system/application logs''),
          (str ''Disk Management'', str ''Create/format/assign volumes''),
          (str ''Device Manager'', str ''Manage hardware devices/drivers'')],
      OrderT (str ''pbq-malware-flow'') (str ''Malware response workflow'')
         (str ''Order the steps for responding to a malware incident.'')
         [str ''Identify and isolate the infected system'',
          str ''Disable System Restore (if used in your procedure)'',
          str ''Remediate/clean or reimage as required'',
          str ''Update signatures and apply patches'',
          str ''Re-enable protections and restore services'',
          str ''Document incident and user education''],
      MatchT (str ''pbq-ticket-triage'') (str ''Help desk triage'')
         (str ''Match each ticket description to the most appropriate priority.'')
         (str ''Ticket'') (str ''Priority'')
         [(str ''Single user cannot print to local printer'', str ''Low''),
          (str ''Multiple users cannot access shared drive'', str ''High''),
          (str ''CEO laptop will not boot before a meeting'', str ''High''),
          (str ''User requests software installation'', str ''Medium'')],
      OrderT (str ''pbq-change-mgmt'') (str ''Change management'')
         (str ''Order common change management steps in a controlled environment.'')
         [str ''Identify scope and risk'',
          str ''Create a rollback plan'',
          str ''Test in a staging environment'',
          str ''Schedule and communicate downtime'',
          str ''Implement the change'',
          str ''Validate and document results'']]"

definition pbqTemplates :: "CoreId \<Rightarrow> Template list \<times> Template list" where
  "pbqTemplates cr = (templates_common, if cr = Core1201 then templates_core1 else templates_core2)"

definition with_given_ids :: "jsstring list \<Rightarrow> jsstring list \<Rightarrow> Opt list" where
  "with_given_ids ids texts = map (\<lambda>(i, t). \<lparr>opt_id = i, opt_text = t\<rparr>) (zip ids texts)"

text \<open>
  \<open>pickOne\<close> gives \<open>undefined\<close> only for an index out of range; reading \<open>t.kind\<close> then
  throws.
\<close>

definition buildPBQQuestion ::
  "CoreId \<Rightarrow> jsstring \<Rightarrow> jsstring \<Rightarrow> PlanItem \<Rightarrow> rng \<Rightarrow> (js_error + Question) \<times> rng" where
  "buildPBQQuestion cr sid baseId objective g =
     (case pickOne g (fst (pbqTemplates cr) @ snd (pbqTemplates cr)) of
        (None, g1) \<Rightarrow> (Inl (TypeError (str ''Cannot read properties of undefined'')), g1)
      | (Some (OrderT tid title prompt items), g1) \<Rightarrow>
          (Inr \<lparr>q_id = sid @ str ''-'' @ baseId, q_core = cr, q_domain = domainLabel objective,
                q_objective = objectiveId objective, q_objectiveTitle = objectiveTitle objective,
                q_objectiveBullets = objectiveBullets objective, q_focus = None,
                q_type = PbqOrder, q_prompt = prompt, q_options = None, q_correct = items,
                q_explanation = (str ''This PBQ practices a common workflow relevant to the exam objectives. Review the steps and why the order matters.''),
                q_pbq = Some (PbqOrderKind (with_given_ids (makeOptionIds (length items)) items))\<rparr>, g1)
      | (Some (MatchT tid title prompt leftLabel rightLabel tpairs), g1) \<Rightarrow>
          (case shuffle g1 tpairs of (pairs, g2) \<Rightarrow>
             (let leftIds = makeOptionIds (length pairs);
                  rightIds = map (\<lambda>x. str ''R'' @ x) (makeOptionIds (length pairs));
                  left = with_given_ids leftIds (map fst pairs)
              in case shuffle g2 (with_given_ids rightIds (map snd pairs)) of (right, g3) \<Rightarrow>
                   (Inr \<lparr>q_id = sid @ str ''-'' @ baseId, q_core = cr, q_domain = domainLabel objective,
                         q_objective = objectiveId objective, q_objectiveTitle = objectiveTitle objective,
                         q_objectiveBullets = objectiveBullets objective, q_focus = None,
                         q_type = PbqMatch, q_prompt = prompt, q_options = None,
                         q_correct = map (\<lambda>(l, r). l @ str ''=>'' @ r) pairs,
                         q_explanation = (str ''This PBQ covers common mappings. Review why each left item matches the right item.''),
                         q_pbq = Some (PbqMatchKind leftLabel rightLabel left right)\<rparr>, g3))))"

subsection \<open>Single and multi questions\<close>

definition allBulletPool :: "catalogue \<Rightarrow> CoreId \<Rightarrow> jsstring list" where
  "allBulletPool cat cr =
     (let ids = listObjectiveIds cat cr;
          pool = concat (map (\<lambda>i. filter (\<lambda>s. s \<noteq> [] \<and> length s \<le> 120)
                                    (map sanitizeText
                                       (case map_of (cat cr) i of None \<Rightarrow> [] | Some m \<Rightarrow> om_bullets m))) ids)
      in if pool \<noteq> [] then pool
         else filter (\<lambda>s. s \<noteq> [])
                (map (\<lambda>i. sanitizeText (case map_of (cat cr) i of None \<Rightarrow> i | Some m \<Rightarrow> om_title m)) ids))"

definition usable_bullets :: "PlanItem \<Rightarrow> jsstring list" where
  "usable_bullets obj =
     filter (\<lambda>b. length b \<le> 140) (filter (\<lambda>b. b \<noteq> []) (map sanitizeText (objectiveBullets obj)))"

definition buildSingleFromObjective ::
  "catalogue \<Rightarrow> CoreId \<Rightarrow> jsstring \<Rightarrow> jsstring \<Rightarrow> PlanItem \<Rightarrow> rng \<Rightarrow> (js_error + Question) \<times> rng" where
  "buildSingleFromObjective cat cr sid baseId obj g =
     (let bullets = usable_bullets obj;
          pool = allBulletPool cat cr
      in case (if bullets \<noteq> [] then pickOne g bullets else (Some (sanitizeText (objectiveTitle obj)), g)) of
           (None, g1) \<Rightarrow> (Inl Untyped, g1)
         | (Some correctText, g1) \<Rightarrow>
            (case takeDistinct g1 (filter (\<lambda>x. x \<noteq> correctText) pool) 3 of (distractors, g2) \<Rightarrow>
             (case shuffle g2 (correctText # distractors) of (shuffled, g3) \<Rightarrow>
               (let optsText = take 4 shuffled;
                    ids = makeOptionIds (length optsText);
                    options = with_given_ids ids optsText;
                    correctId = (case find (\<lambda>x. opt_text x = correctText) options of
                                   Some x \<Rightarrow> opt_id x
                                 | None \<Rightarrow> (case ids of i # _ \<Rightarrow> i | [] \<Rightarrow> str ''undefined''));
                    prompt = str ''Which of the following is specifically listed under the objective:'' @ [10] @ [34] @ sanitizeText (objectiveTitle obj) @ [34] @ str ''?''
                in (Inr \<lparr>q_id = sid @ str ''-'' @ baseId, q_core = cr, q_domain = domainLabel obj,
                         q_objective = objectiveId obj, q_objectiveTitle = objectiveTitle obj,
                         q_objectiveBullets = objectiveBullets obj, q_focus = Some correctText,
                         q_type = Single, q_prompt = prompt, q_options = Some options,
                         q_correct = [correctId],
                         q_explanation = [34] @ correctText @ [34] @ str '' is explicitly included under this objective. Review the objective bullets for related terms.'',
                         q_pbq = None\<rparr>, g3)))))"

definition join_with :: "jsstring \<Rightarrow> jsstring list \<Rightarrow> jsstring" where
  "join_with sep ls = (case ls of [] \<Rightarrow> [] | l # rest \<Rightarrow> l @ concat (map (\<lambda>x. sep @ x) rest))"

definition buildMultiFromObjective ::
  "catalogue \<Rightarrow> CoreId \<Rightarrow> jsstring \<Rightarrow> jsstring \<Rightarrow> PlanItem \<Rightarrow> rng \<Rightarrow> (js_error + Question) \<times> rng" where
  "buildMultiFromObjective cat cr sid baseId obj g =
     (let bullets = usable_bullets obj in
      if length bullets < 2 then buildSingleFromObjective cat cr sid baseId obj g
      else
        (let pool = allBulletPool cat cr in
         case takeDistinct g bullets 2 of (correctTexts, g1) \<Rightarrow>
          (case takeDistinct g1 (filter (\<lambda>x. x \<notin> set correctTexts) pool) 3 of (distractors, g2) \<Rightarrow>
           (case shuffle g2 (correctTexts @ distractors) of (shuffled, g3) \<Rightarrow>
             (let optsText = take 5 shuffled;
                  ids = makeOptionIds (length optsText);
                  options = with_given_ids ids optsText;
                  correctIds = map opt_id (filter (\<lambda>x. opt_text x \<in> set correctTexts) options);
                  prompt = str ''Select ALL that apply. Which of the following are specifically listed under the objective:'' @ [10] @ [34] @ sanitizeText (objectiveTitle obj) @ [34] @ str ''?''
              in (Inr \<lparr>q_id = sid @ str ''-'' @ baseId, q_core = cr, q_domain = domainLabel obj,
                       q_objective = objectiveId obj, q_objectiveTitle = objectiveTitle obj,
                       q_objectiveBullets = objectiveBullets obj,
                       q_focus = Some (join_with (str ''; '') correctTexts),
                       q_type = Multi, q_prompt = prompt, q_options = Some options,
                       q_correct = correctIds,
                       q_explanation = (str ''These items are listed under the objective. The distractors are from other objectives/domains.''),
                       q_pbq = None\<rparr>, g3))))))"

subsection \<open>buildOfflineQuestions\<close>

fun offlineLoop ::
  "catalogue \<Rightarrow> CoreId \<Rightarrow> jsstring \<Rightarrow> nat \<Rightarrow> rng \<Rightarrow> Question list \<Rightarrow> PlanItem list
     \<Rightarrow> js_error + Question list" where
  "offlineLoop cat cr sid counter g qs [] = Inr qs"
| "offlineLoop cat cr sid counter g qs (p # ps) =
     (let baseId = str ''offline-'' @ padStart3 (dec (counter + 1))
      in case (if pi_type p = PbqOrder \<or> pi_type p = PbqMatch then buildPBQQuestion cr sid baseId p g
               else if pi_type p = Multi then buildMultiFromObjective cat cr sid baseId p g
               else buildSingleFromObjective cat cr sid baseId p g) of
           (Inl e, g') \<Rightarrow> Inl e
         | (Inr q, g') \<Rightarrow> offlineLoop cat cr sid (counter + 1) g' (qs @ [q]) ps)"

definition buildOfflineQuestions ::
  "catalogue \<Rightarrow> CoreId \<Rightarrow> jsstring \<Rightarrow> SessionConfig \<Rightarrow> PlanItem list \<Rightarrow> js_error + Question list" where
  "buildOfflineQuestions cat cr sid cfg plan =
     (let g = mulberry32 (hashStringToSeed
                (sid @ str '':'' @ core_str cr @ str '':'' @ difficulty_str (difficulty cfg)))
      in case shuffle g plan of (planShuffled, g1) \<Rightarrow>
           (case offlineLoop cat cr sid 0 g1 [] planShuffled of
              Inl e \<Rightarrow> Inl e
            | Inr built \<Rightarrow> Inr (take (length plan) built)))"

section \<open>The session planner (sessionPlanner.ts)\<close>

subsection \<open>Counted iteration and sorting on Numbers\<close>

text \<open>
  How often the body of \<open>for (let i = 0; i < bound; i++)\<close> runs when nothing in the body
  stops it: not at all for a bound that is NaN or not positive; for a positive bound the
  least integer not below it; and without end (\<open>None\<close>) for plus infinity and for a bound
  above \<open>2 ^ 53\<close>, where \<open>i++\<close> no longer changes \<open>i\<close>.
\<close>

definition iterations :: "jsnum \<Rightarrow> nat option" where
  "iterations b =
     (case b of
        Fin r \<Rightarrow> (if r \<le> 0 then Some 0 else if r \<le> 2 ^ 53 then Some (nat \<lceil>r\<rceil>) else None)
      | PInf \<Rightarrow> None
      | _ \<Rightarrow> Some 0)"

text \<open>
  \<open>Array.prototype.sort\<close> with a comparator is stable: for a consistent comparator the
  result is that of this insertion sort, where an element goes behind those that the
  comparator puts before it or level with it. For a comparator that is not consistent
  (here: a NaN remainder) the order is left to the engine.
\<close>

fun js_insort :: "('a \<Rightarrow> 'a \<Rightarrow> jsnum) \<Rightarrow> 'a \<Rightarrow> 'a list \<Rightarrow> 'a list" where
  "js_insort cmp x [] = [x]"
| "js_insort cmp x (y # ys) =
     (if js_lt (Fin 0) (cmp x y) then y # js_insort cmp x ys else x # y # ys)"

definition js_sort :: "('a \<Rightarrow> 'a \<Rightarrow> jsnum) \<Rightarrow> 'a list \<Rightarrow> 'a list" where
  "js_sort cmp xs = foldr (js_insort cmp) xs []"

text \<open>An object used as a dictionary with string keys: its own properties in insertion order.\<close>

fun assoc_set :: "jsstring \<Rightarrow> 'v \<Rightarrow> (jsstring \<times> 'v) list \<Rightarrow> (jsstring \<times> 'v) list" where
  "assoc_set k v [] = [(k, v)]"
| "assoc_set k v ((k', v') # kvs) =
     (if k' = k then (k', v) # kvs else (k', v') # assoc_set k v kvs)"

subsection \<open>allocateByWeight\<close>

record DomainBlueprint =
  bp_domainNumber :: jsstring
  bp_domainLabel :: jsstring
  weight :: jsnum

definition CORE1_BLUEPRINT :: "DomainBlueprint list" where
  "CORE1_BLUEPRINT =
     [\<lparr>bp_domainNumber = str ''1.0'', bp_domainLabel = str ''Mobile Devices'', weight = Fin 13\<rparr>,
      \<lparr>bp_domainNumber = str ''2.0'', bp_domainLabel = str ''Networking'', weight = Fin 23\<rparr>,
      \<lparr>bp_domainNumber = str ''3.0'', bp_domainLabel = str ''Hardware'', weight = Fin 25\<rparr>,
      \<lparr>bp_domainNumber = str ''4.0'', bp_domainLabel = str ''Virtualization and Cloud Computing'',
       weight = Fin 11\<rparr>,
      \<lparr>bp_domainNumber = str ''5.0'', bp_domainLabel = str ''Hardware and Network Troubleshooting'',
       weight = Fin 28\<rparr>]"

definition CORE2_BLUEPRINT :: "DomainBlueprint list" where
  "CORE2_BLUEPRINT =
     [\<lparr>bp_domainNumber = str ''1.0'', bp_domainLabel = str ''Operating Systems'', weight = Fin 28\<rparr>,
      \<lparr>bp_domainNumber = str ''2.0'', bp_domainLabel = str ''Security'', weight = Fin 28\<rparr>,
      \<lparr>bp_domainNumber = str ''3.0'', bp_domainLabel = str ''Software Troubleshooting'', weight = Fin 23\<rparr>,
      \<lparr>bp_domainNumber = str ''4.0'', bp_domainLabel = str ''Operational Procedures'', weight = Fin 21\<rparr>]"

text \<open>An element of \<open>raw\<close>: key, exact, floor; an element of \<open>byRemainder\<close> adds rem.\<close>

type_synonym raw_row = "jsstring \<times> jsnum \<times> jsnum"

type_synonym rem_row = "jsstring \<times> jsnum \<times> jsnum \<times> jsnum"

definition weight_sum :: "DomainBlueprint list \<Rightarrow> jsnum" where
  "weight_sum blueprint = foldl (\<lambda>s d. js_add s (weight d)) (Fin 0) blueprint"

definition raw_rows :: "jsnum \<Rightarrow> DomainBlueprint list \<Rightarrow> raw_row list" where
  "raw_rows tot blueprint =
     map (\<lambda>d. (bp_domainNumber d,
                js_mul (js_div (weight d) (weight_sum blueprint)) tot,
                js_floor (js_mul (js_div (weight d) (weight_sum blueprint)) tot))) blueprint"

definition used_sum :: "raw_row list \<Rightarrow> jsnum" where
  "used_sum raw = foldl (\<lambda>s (k, e, f). js_add s f) (Fin 0) raw"

definition with_rem :: "raw_row \<Rightarrow> rem_row" where
  "with_rem r = (case r of (k, e, f) \<Rightarrow> (k, e, f, js_sub e f))"

definition rem_of :: "rem_row \<Rightarrow> jsnum" where
  "rem_of r = (case r of (k, e, f, m) \<Rightarrow> m)"

definition key_of :: "rem_row \<Rightarrow> jsstring" where
  "key_of r = (case r of (k, e, f, m) \<Rightarrow> k)"

definition by_remainder :: "raw_row list \<Rightarrow> rem_row list" where
  "by_remainder raw = js_sort (\<lambda>a b. js_sub (rem_of b) (rem_of a)) (map with_rem raw)"

text \<open>\<open>counts[k] += 1\<close>; a missing key would read \<open>undefined\<close>, and \<open>undefined + 1\<close> is NaN.\<close>

definition bump :: "jsstring \<Rightarrow> (jsstring \<times> jsnum) list \<Rightarrow> (jsstring \<times> jsnum) list" where
  "bump k counts =
     assoc_set k (js_add (case map_of counts k of None \<Rightarrow> NaN | Some v \<Rightarrow> v) (Fin 1)) counts"

definition distribute :: "rem_row list \<Rightarrow> nat \<Rightarrow> (jsstring \<times> jsnum) list \<Rightarrow> (jsstring \<times> jsnum) list" where
  "distribute byRemainder n counts =
     foldl (\<lambda>c i. bump (key_of (byRemainder ! (i mod length byRemainder))) c) counts [0..<n]"

text \<open>
  The result is \<open>None\<close> when the last loop never ends. With an empty \<open>byRemainder\<close> the
  first pass through that loop reads \<open>byRemainder[NaN].key\<close> and throws.
\<close>

definition allocateByWeight ::
  "jsnum \<Rightarrow> DomainBlueprint list \<Rightarrow> (js_error + (jsstring \<times> jsnum) list) option" where
  "allocateByWeight tot blueprint =
     (let raw = raw_rows tot blueprint;
          used = used_sum raw;
          remaining = js_sub tot used;
          byRemainder = by_remainder raw;
          counts = foldl (\<lambda>c (k, e, f). assoc_set k f c) [] raw
      in case iterations remaining of
           Some 0 \<Rightarrow> Some (Inr counts)
         | Some n \<Rightarrow>
             (if byRemainder = [] then Some (Inl (TypeError (str ''Cannot read properties of undefined'')))
              else Some (Inr (distribute byRemainder n counts)))
         | None \<Rightarrow>
             (if byRemainder = [] then Some (Inl (TypeError (str ''Cannot read properties of undefined'')))
              else None))"

subsection \<open>buildPlan\<close>

text \<open>
  \<open>Math.random\<close> is outside the program: the parameter \<open>rand\<close> gives its successive
  values, binary64 numbers from 0 up to, not including, 1; a counter of the values drawn
  is threaded through the loops.
\<close>

type_synonym random_source = "nat \<Rightarrow> rat"

definition random_index :: "random_source \<Rightarrow> nat \<Rightarrow> nat \<Rightarrow> jsnum" where
  "random_index rand k n = js_floor (js_mul (Fin (rand k)) (num n))"

text \<open>The inner loop of the planner for one domain: \<open>n\<close> more items to push.\<close>

fun drawObjectives ::
  "catalogue \<Rightarrow> random_source \<Rightarrow> CoreId \<Rightarrow> DomainBlueprint \<Rightarrow> jsstring list \<Rightarrow> nat \<Rightarrow> nat
     \<Rightarrow> PlanItem list \<Rightarrow> js_error + PlanItem list \<times> nat" where
  "drawObjectives cat rand cr d objectiveIds 0 k plan = Inr (plan, k)"
| "drawObjectives cat rand cr d objectiveIds (Suc n) k plan =
     (case (if objectiveIds \<noteq> []
            then (js_index objectiveIds (random_index rand k (length objectiveIds)), k + 1)
            else (Some (before_dot (bp_domainNumber d) @ str ''.1''), k)) of
        (None, k') \<Rightarrow> Inl Untyped
      | (Some objId, k') \<Rightarrow>
          drawObjectives cat rand cr d objectiveIds n k'
            (plan @ [\<lparr>domainNumber = bp_domainNumber d, domainLabel = bp_domainLabel d,
                      objectiveId = objId,
                      objectiveTitle = (case getObjectiveMeta cat cr objId of
                                          None \<Rightarrow> str ''Objective '' @ objId | Some m \<Rightarrow> om_title m),
                      objectiveBullets = (case getObjectiveMeta cat cr objId of
                                            None \<Rightarrow> [] | Some m \<Rightarrow> om_bullets m),
                      pi_type = Single\<rparr>]))"

text \<open>The loop over the blueprint; \<open>None\<close> when a count makes the inner loop endless.\<close>

fun planDomains ::
  "catalogue \<Rightarrow> random_source \<Rightarrow> CoreId \<Rightarrow> (jsstring \<times> jsnum) list \<Rightarrow> DomainBlueprint list \<Rightarrow> nat
     \<Rightarrow> PlanItem list \<Rightarrow> (js_error + PlanItem list \<times> nat) option" where
  "planDomains cat rand cr allocation [] k plan = Some (Inr (plan, k))"
| "planDomains cat rand cr allocation (d # ds) k plan =
     (case iterations (case map_of allocation (bp_domainNumber d) of None \<Rightarrow> Fin 0 | Some c \<Rightarrow> c) of
        None \<Rightarrow> None
      | Some n \<Rightarrow>
         (case drawObjectives cat rand cr d (listObjectivesByDomain cat cr (bp_domainNumber d)) n k plan of
            Inl e \<Rightarrow> Some (Inl e)
          | Inr (plan', k') \<Rightarrow> planDomains cat rand cr allocation ds k' plan'))"

text \<open>
  PBQ injection: \<open>n\<close> more slots to pick. An index out of range can only be 0 on an
  empty plan, where the assignment would add an item that has a type and nothing else.
\<close>

fun injectPbqs :: "random_source \<Rightarrow> nat \<Rightarrow> nat \<Rightarrow> PlanItem list \<Rightarrow> js_error + PlanItem list \<times> nat" where
  "injectPbqs rand 0 k plan = Inr (plan, k)"
| "injectPbqs rand (Suc n) k plan =
     (case js_index (zip [0..<length plan] plan) (random_index rand k (length plan)) of
        None \<Rightarrow> Inl Untyped
      | Some (idx, p) \<Rightarrow>
          injectPbqs rand n (k + 2)
            (plan[idx := p\<lparr>pi_type := (if rand (k + 1) < 1 / 2 then PbqOrder else PbqMatch)\<rparr>]))"

text \<open>The multi-select sprinkle; reading \<open>plan[idx].type\<close> out of range throws.\<close>

fun sprinkleMulti :: "random_source \<Rightarrow> nat \<Rightarrow> nat \<Rightarrow> PlanItem list \<Rightarrow> js_error + PlanItem list \<times> nat" where
  "sprinkleMulti rand 0 k plan = Inr (plan, k)"
| "sprinkleMulti rand (Suc n) k plan =
     (case js_index (zip [0..<length plan] plan) (random_index rand k (length plan)) of
        None \<Rightarrow> Inl (TypeError (str ''Cannot read properties of undefined''))
      | Some (idx, p) \<Rightarrow>
          sprinkleMulti rand n (k + 1)
            (if pi_type p = Single then plan[idx := p\<lparr>pi_type := Multi\<rparr>] else plan))"

definition blueprint_of :: "CoreId \<Rightarrow> DomainBlueprint list" where
  "blueprint_of cr = (if cr = Core1201 then CORE1_BLUEPRINT else CORE2_BLUEPRINT)"

definition buildPlan ::
  "catalogue \<Rightarrow> random_source \<Rightarrow> CoreId \<Rightarrow> SessionConfig \<Rightarrow> (js_error + PlanItem list) option" where
  "buildPlan cat rand cr cfg =
     (let blueprint = blueprint_of cr in
      case allocateByWeight (num EXAM_QUESTION_COUNT) blueprint of
        None \<Rightarrow> None
      | Some (Inl e) \<Rightarrow> Some (Inl e)
      | Some (Inr allocation) \<Rightarrow>
         (case planDomains cat rand cr allocation blueprint 0 [] of
            None \<Rightarrow> None
          | Some (Inl e) \<Rightarrow> Some (Inl e)
          | Some (Inr (plan, k)) \<Rightarrow>
             (case iterations (js_max (Fin 0) (js_min (pbqCount cfg) (Fin 12))) of
                None \<Rightarrow> None
              | Some pbqN \<Rightarrow>
                 (case injectPbqs rand pbqN k plan of
                    Inl e \<Rightarrow> Some (Inl e)
                  | Inr (plan1, k1) \<Rightarrow>
                     (case iterations (js_min (Fin 10)
                             (js_floor (js_mul (num (length plan1)) (round64 (12 / 100))))) of
                        None \<Rightarrow> None
                      | Some multiN \<Rightarrow>
                         (case sprinkleMulti rand multiN k1 plan1 of
                            Inl e \<Rightarrow> Some (Inl e)
                          | Inr (plan2, k2) \<Rightarrow> Some (Inr (take EXAM_QUESTION_COUNT plan2))))))))"

section \<open>Notions used in the statements\<close>

text \<open>The values of \<open>Math.random\<close>: binary64 numbers from 0 up to, not including, 1.\<close>

definition unit_doubles :: "random_source \<Rightarrow> bool" where
  "unit_doubles rand = (\<forall>k. round64 (rand k) = Fin (rand k) \<and> 0 \<le> rand k \<and> rand k < 1)"

text \<open>What the planner fixes of an item for a domain: everything but the answer type.\<close>

definition planned_for :: "catalogue \<Rightarrow> CoreId \<Rightarrow> DomainBlueprint \<Rightarrow> PlanItem \<Rightarrow> bool" where
  "planned_for cat cr d p =
     (domainNumber p = bp_domainNumber d \<and> domainLabel p = bp_domainLabel d
      \<and> (if listObjectivesByDomain cat cr (bp_domainNumber d) = []
          then objectiveId p = before_dot (bp_domainNumber d) @ str ''.1''
          else objectiveId p \<in> set (listObjectivesByDomain cat cr (bp_domainNumber d))))"

text \<open>Two plans that differ at most in the answer types of their items.\<close>

definition same_but_types :: "PlanItem list \<Rightarrow> PlanItem list \<Rightarrow> bool" where
  "same_but_types xs ys = list_all2 (\<lambda>p q. \<exists>t. q = p\<lparr>pi_type := t\<rparr>) xs ys"

text \<open>The values a Number can take: NaN, the infinities and the binary64 numbers.\<close>

definition is_double :: "jsnum \<Rightarrow> bool" where
  "is_double x = (case x of Fin r \<Rightarrow> round64 r = Fin r | _ \<Rightarrow> True)"

text \<open>A question with its id blanked, to compare questions up to their ids.\<close>

definition without_id :: "Question \<Rightarrow> Question" where
  "without_id q = q\<lparr>q_id := []\<rparr>"

text \<open>
  A question built offline for a plan item: it carries the domain label and the objective
  of the item; a PBQ item gives a PBQ of the kind of the template drawn, a multi item a
  multi question (a single one when the objective has fewer than two usable bullets).
\<close>

definition built_for :: "PlanItem \<Rightarrow> Question \<Rightarrow> bool" where
  "built_for p q =
     (q_domain q = domainLabel p \<and> q_objective q = objectiveId p
      \<and> q_objectiveTitle q = objectiveTitle p \<and> q_objectiveBullets q = objectiveBullets p
      \<and> (if pi_type p = PbqOrder \<or> pi_type p = PbqMatch then q_type q = PbqOrder \<or> q_type q = PbqMatch
          else if pi_type p = Multi then q_type q = Multi \<or> q_type q = Single
          else q_type q = Single))"

section \<open>Example data\<close>





definition ex_raw :: "RawBody \<Rightarrow> RawItem" where
  "ex_raw b =
     \<lparr>r_domain = str ''1.0 Mobile Devices'', r_objectiveId = str ''1.1'',
      r_objectiveTitle = str ''Objective 1.1'', r_objectiveBullets = [],
      r_prompt = str ''Prompt'', r_explanation = str ''Why'', r_body = b\<rparr>"

definition ex_choice :: RawItem where
  "ex_choice = ex_raw (RawChoice CSingle [str ''a'', str ''b'', str ''c'', str ''d''] [Fin 1])"

definition ex_match :: "(jsnum \<times> jsnum) list \<Rightarrow> RawItem" where
  "ex_match ps =
     ex_raw (RawMatch (str ''Port'') (str ''Service'') [str ''22'', str ''53'', str ''80'']
               [str ''SSH'', str ''DNS'', str ''HTTP''] ps)"

definition ex_plan_item :: PlanItem where
  "ex_plan_item =
     \<lparr>domainNumber = str ''1.0'', domainLabel = str ''Mobile Devices'', objectiveId = str ''1.1'',
      objectiveTitle = str ''Objective 1.1'', objectiveBullets = [], pi_type = Single\<rparr>"

text \<open>A backend that answers every request with the text \<open>{"items": []}\<close>, and a parser for that text.\<close>

definition ex_parse :: json_parser where
  "ex_parse t = (if t = [123] @ [34] @ str ''items'' @ [34] @ str '': []}''
                 then Inr (JObj [(str ''items'', JArr [])]) else Inl (str ''Unexpected token''))"

definition ex_response :: HttpResponse where
  "ex_response =
     \<lparr>hr_ok = True, hr_status = 200, hr_statusText = str ''OK'', hr_text = None,
      hr_json = Inr (JObj [(str ''output_text'',
                            JStr ([123] @ [34] @ str ''items'' @ [34] @ str '': []}''))])\<rparr>"

definition ex_fetch :: "nat fetcher" where
  "ex_fetch w req = (Inr ex_response, Suc w)"

definition ex_pbq_item :: PlanItem where
  "ex_pbq_item = ex_plan_item\<lparr>pi_type := PbqOrder\<rparr>"

definition ex_catalogue :: catalogue where
  "ex_catalogue cr =
     [(str ''1.1'', \<lparr>om_domain = str ''1.0'', om_title = str ''Laptop hardware'',
                     om_bullets = [str ''Battery'', str ''Keyboard'', str ''RAM'', str ''Wi-Fi antenna'']\<rparr>),
      (str ''2.1'', \<lparr>om_domain = str ''2.0'', om_title = str ''Ports and protocols'',
                     om_bullets = [str ''SSH'', str ''DNS'', str ''HTTP'']\<rparr>)]"

definition ex_rand :: random_source where
  "ex_rand k = (if even k then 1 / 4 else 3 / 4)"

definition ex_domain :: "jsstring \<Rightarrow> rat \<Rightarrow> DomainBlueprint" where
  "ex_domain k w = \<lparr>bp_domainNumber = k, bp_domainLabel = str ''Domain'', weight = Fin w\<rparr>"

section \<open>Evaluating the string helpers\<close>

lemma dec_Suc_0: "dec (Suc 0) = [49]"
  by (simp add: dec.simps [of "Suc 0"] digit_def)

lemma dec_0: "dec 0 = [48]"
  by (simp add: dec.simps [of 0] digit_def)

lemmas dec_numeral = dec.simps [of "numeral k"] for k

section \<open>Properties of the scoring engine\<close>





lemma scoreLoop_count:
  "fst (scoreLoop answers pbqState qs cc sc agg)
     = cc + length (filter (questionOk answers pbqState) qs)"
  by (induction qs arbitrary: cc sc agg) (simp_all add: Let_def)








text \<open>
  C10. For a session with no questions the percent division is not guarded: the result
  has total 0, correctCount 0 and the percent \<open>round((0 / 0) * 1000) / 10\<close>, which is NaN.
\<close>

theorem scoreExam_empty_percent_NaN:
  "scoreExam (s\<lparr>questions := []\<rparr>) answers pbqState
     = \<lparr>percent = NaN, correctCount = 0, total_er = 0, byDomain = [], scored = []\<rparr>"
  by (simp add: scoreExam_def num_def object_entries_def)

section \<open>Properties of normalization and session assembly\<close>

lemma normalizeLoop_append:
  "normalizeLoop cr sid shuf seq out items
     = out @ map (\<lambda>(it, k). normalizeItem cr sid shuf (seq + k + 1) it) (zip items [0..<length items])"
proof (induction items arbitrary: seq out)
  case Nil
  then show ?case by simp
next
  case (Cons it items)
  have "zip items [1..<Suc (length items)] = zip items (map Suc [0..<length items])"
    by (simp add: map_Suc_upt)
  then show ?case
    by (simp add: Cons.IH upt_conv_Cons zip_map2 case_prod_unfold del: upt_Suc)
qed

lemma length_normalizeQuestions [simp]:
  "length (normalizeQuestions cr sid shuf items) = length items"
  by (simp add: normalizeQuestions_def normalizeLoop_append)

text \<open>The ids of normalized questions end in a digit and name no member of \<open>Object.prototype\<close>.\<close>

lemma dec_last: "dec n \<noteq> [] \<and> last (dec n) = digit (n mod 10)"
  by (subst dec.simps, subst (2) dec.simps) simp

lemma digit_ascii: "d < 10 \<Longrightarrow> 48 \<le> digit d \<and> digit d \<le> 57"
proof -
  assume "d < 10"
  then have "d \<in> set [0..<10]" by simp
  then show ?thesis
    by (auto simp: upt_conv_Cons digit_def)
qed

lemma prototype_name_last:
  "name \<in> set object_prototype_names \<Longrightarrow> \<not> (48 \<le> last name \<and> last name \<le> 57)"
  by (auto simp: object_prototype_names_def str_def)

lemma generated_id_plain:
  assumes "ident = pre @ dec n"
  shows "ident \<notin> set object_prototype_names"
proof
  assume "ident \<in> set object_prototype_names"
  then have "\<not> (48 \<le> last ident \<and> last ident \<le> 57)"
    by (rule prototype_name_last)
  moreover have "last ident = digit (n mod 10)"
    using assms dec_last [of n] by simp
  moreover have "n mod 10 < 10" by simp
  ultimately show False
    using digit_ascii [of "n mod 10"] by simp
qed
lemma normalizeItem_id: "q_id (normalizeItem cr sid shuf seq it) = sid @ str ''-q-'' @ dec seq"
  by (simp add: normalizeItem_def Let_def split: RawBody.splits)

lemma normalizeQuestions_own_lookups:
  "own_lookups answers (normalizeQuestions cr sid shuf items)"
proof -
  have "q_id q \<notin> set object_prototype_names"
    if "q \<in> set (normalizeQuestions cr sid shuf items)" for q
  proof -
    from that obtain it k where "q = normalizeItem cr sid shuf k it"
      by (auto simp: normalizeQuestions_def normalizeLoop_append)
    then have "q_id q = (sid @ str ''-q-'') @ dec k"
      by (simp add: normalizeItem_id)
    then show ?thesis by (rule generated_id_plain)
  qed
  then show ?thesis
    by (simp add: own_lookups_def list_all_iff)
qed

text \<open>
  C5 (as amended). With fewer than 90 normalized questions the assembly stops with the
  message "Generator returned n questions; expected 90."; with 90 or more it starts the
  exam on the first 90 normalized questions.
\<close>

theorem runGeneration_assemble_cases:
  "(length (normalizeQuestions cr sid shuf items) < 90 \<longrightarrow>
      runGeneration_assemble cr sid shuf items
        = GenPaused (str ''Generator returned '' @ dec (length (normalizeQuestions cr sid shuf items))
                     @ str '' questions; expected 90.''))
   \<and> (90 \<le> length (normalizeQuestions cr sid shuf items) \<longrightarrow>
      runGeneration_assemble cr sid shuf items
        = ExamStarted (take 90 (normalizeQuestions cr sid shuf items)))"
proof -
  have d: "dec 90 = str ''90''"
    by (simp add: dec_numeral digit_def str_def)
  show ?thesis
    by (auto simp: runGeneration_assemble_def EXAM_QUESTION_COUNT_def Let_def d str_def min_def)
qed

theorem runGeneration_assemble_cases_witness:
  "runGeneration_assemble Core1201 (str ''s'') (\<lambda>k xs. xs) [ex_choice]
     = GenPaused (str ''Generator returned 1 questions; expected 90.'')
   \<and> runGeneration_assemble Core1201 (str ''s'') (\<lambda>k xs. xs) (replicate 90 ex_choice)
     = ExamStarted (take 90 (normalizeQuestions Core1201 (str ''s'') (\<lambda>k xs. xs) (replicate 90 ex_choice)))"
  using runGeneration_assemble_cases [of Core1201 "str ''s''" "\<lambda>k xs. xs" "[ex_choice]"]
    runGeneration_assemble_cases [of Core1201 "str ''s''" "\<lambda>k xs. xs" "replicate 90 ex_choice"]
  by (simp add: dec_Suc_0 str_def)

text \<open>
  C5 as stated fails for more than 90 normalized questions: 91 generated items normalize
  to 91 questions, and the assembly starts the exam on the first 90 of them.
\<close>

theorem runGeneration_assemble_truncates_counterexample:
  "length (normalizeQuestions Core1201 (str ''s'') (\<lambda>k xs. xs) (replicate 91 ex_choice)) = 91
   \<and> runGeneration_assemble Core1201 (str ''s'') (\<lambda>k xs. xs) (replicate 91 ex_choice)
     = ExamStarted (take 90 (normalizeQuestions Core1201 (str ''s'') (\<lambda>k xs. xs) (replicate 91 ex_choice)))"
  by (simp add: runGeneration_assemble_def EXAM_QUESTION_COUNT_def Let_def)

text \<open>
  C9. A pbq-match pair whose left index resolves and whose right index does not is kept
  in the canonical correct answer, as the text of the left entry followed by
  \<open>=>undefined\<close>: with three left and three right entries, the pair (0, 7) gives
  \<open>22=>undefined\<close>, while the pair (7, 0) is dropped.
\<close>

theorem normalizeQuestions_keeps_unresolved_right:
  "map q_correct (normalizeQuestions Core1201 (str ''s'') (\<lambda>k xs. xs) [ex_match [(Fin 0, Fin 7)]])
     = [[str ''22=>undefined'']]
   \<and> map q_correct (normalizeQuestions Core1201 (str ''s'') (\<lambda>k xs. xs) [ex_match [(Fin 7, Fin 0)]])
     = [[]]"
  by (simp add: normalizeQuestions_def normalizeItem_def ex_match_def ex_raw_def Let_def
      with_ids_def js_index_def nth_opt_def text_or_undefined_def startsWith_def str_def
      upt_conv_Cons dec_Suc_0 dec_numeral digit_def)

section \<open>Properties of the retry loop of callOpenAI\<close>

lemma err_text_nonempty: "err_text e \<noteq> []"
  by (cases e) (simp_all add: err_text_def or_else_def str_def)

lemma join_lines_append:
  "xs \<noteq> [] \<Longrightarrow> join_lines (xs @ ys) = join_lines xs @ concat (map (\<lambda>x. 10 # x) ys)"
  by (cases xs) (simp_all add: join_lines_def)

lemma request_retry:
  "m \<noteq> [] \<Longrightarrow>
   request key model items diff (system_lines (length items) (Suc 0) (Some m))
     = (request key model items diff (system_lines (length items) 0 None))
         \<lparr>rq_system := rq_system (request key model items diff (system_lines (length items) 0 None))
            @ [10] @ [10] @ str ''Your previous output was invalid.''
            @ [10] @ str ''Fix the JSON and re-output per contract. Error: '' @ take 500 m\<rparr>"
proof -
  assume m: "m \<noteq> []"
  have "baseSystem (length items) \<noteq> []"
    by (simp add: baseSystem_def)
  with m show ?thesis
    by (simp add: request_def system_lines_def join_lines_append)
qed

lemma attemptOnce_request:
  "snd (snd (attemptOnce parse fetch key model items diff attempt lastErr w))
     = request key model items diff (system_lines (length items) attempt lastErr)"
  by (simp add: attemptOnce_def Let_def split: prod.splits sum.splits)

lemma attemptOnce_invalid:
  assumes "fetch w (request key model items diff (system_lines (length items) attempt lastErr)) = (Inr resp, w')"
    and "hr_ok resp" and "hr_json resp = Inr data" and "extract_text data = Inr text"
    and "checkOutput parse (length items) text = Inl e"
  shows "attemptOnce parse fetch key model items diff attempt lastErr w
           = (Invalid (err_text e), w', request key model items diff (system_lines (length items) attempt lastErr))"
  using assms by (simp add: attemptOnce_def Let_def)

lemma attemptOnce_checked:
  assumes "fetch w (request key model items diff (system_lines (length items) attempt lastErr)) = (Inr resp, w')"
    and "hr_ok resp" and "hr_json resp = Inr data" and "extract_text data = Inr text"
  shows "fst (attemptOnce parse fetch key model items diff attempt lastErr w)
           = (case checkOutput parse (length items) text of
                Inl e \<Rightarrow> Invalid (err_text e) | Inr out \<Rightarrow> Returned out)"
  using assms by (simp add: attemptOnce_def Let_def split: sum.splits)

lemma callLoop_after_invalid:
  assumes "attemptOnce parse fetch key model items diff 0 None w = (Invalid m1, w1, r0)"
  shows "callLoop parse fetch key model items diff 0 None w []
           = (case attemptOnce parse fetch key model items diff 1 (Some m1) w1 of
                (Returned out, w2, r1) \<Rightarrow> (Inr out, w2, [r0, r1])
              | (Thrown e, w2, r1) \<Rightarrow> (Inl e, w2, [r0, r1])
              | (Invalid m2, w2, r1) \<Rightarrow>
                  (Inl (Error (str ''Model returned invalid JSON after retries: '' @ m2)), w2, [r0, r1]))"
proof -
  obtain res w2 r1 where a: "attemptOnce parse fetch key model items diff 1 (Some m1) w1 = (res, w2, r1)"
    by (metis prod_cases3)
  have "callLoop parse fetch key model items diff 0 None w []
          = callLoop parse fetch key model items diff 1 (Some m1) w1 [r0]"
    using assms(1) by (simp add: callLoop.simps [of _ _ _ _ _ _ 0])
  also have "\<dots> = (case res of
                Returned out \<Rightarrow> (Inr out, w2, [r0, r1])
              | Thrown e \<Rightarrow> (Inl e, w2, [r0, r1])
              | Invalid m2 \<Rightarrow>
                  (Inl (Error (str ''Model returned invalid JSON after retries: '' @ m2)), w2, [r0, r1]))"
    using a
    by (cases res)
      (simp_all add: callLoop.simps [of _ _ _ _ _ _ "Suc 0"]
        callLoop.simps [of _ _ _ _ _ _ "Suc (Suc 0)"])
  finally show ?thesis
    using a by (cases res) simp_all
qed

text \<open>
  C4. Let \<open>r0\<close> be the first request: the endpoint, the key, the model, the base
  instructions, and the batch (purpose, difficulty, and for each plan item its type,
  domain, objective id, title and bullets). When the response to \<open>r0\<close> fails validation
  with error \<open>e1\<close>, the call sends exactly two requests, whatever the second response is:
  \<open>r0\<close>, then \<open>r1\<close>, which is \<open>r0\<close> with the failure reason (the first 500 characters of
  the message of \<open>e1\<close>) appended to the instructions and nothing else changed. If the
  second response fails validation with error \<open>e2\<close>, the call fails with "Model returned
  invalid JSON after retries: " followed by the message of \<open>e2\<close>; if it validates, its
  items are returned. In particular a top-level object whose only key \<open>items\<close> holds an
  array of a length other than the number of plan items fails validation.
\<close>

theorem callOpenAI_retries_once:
  assumes "key \<noteq> []"
    and "r0 = \<lparr>rq_endpoint = str ''https://api.openai.com/v1/responses'',
               rq_authorization = str ''Bearer '' @ key,
               rq_model = model,
               rq_system = join_lines (baseSystem (length items)),
               rq_purpose = str ''Generate a batch of CompTIA A+ practice questions.'',
               rq_difficulty = diff,
               rq_items = map (\<lambda>it. \<lparr>ri_type = pi_type it,
                                       ri_domain = js_trim (domainNumber it @ [32] @ domainLabel it),
                                       ri_objectiveId = objectiveId it,
                                       ri_objectiveTitle = objectiveTitle it,
                                       ri_objectiveBullets = objectiveBullets it\<rparr>) items,
               rq_temperature = round64 (6 / 10),
               rq_max_output_tokens = 3500\<rparr>"
    and "r1 = r0\<lparr>rq_system := rq_system r0 @ [10] @ [10] @ str ''Your previous output was invalid.''
                    @ [10] @ str ''Fix the JSON and re-output per contract. Error: ''
                    @ take 500 (err_text e1)\<rparr>"
    and "fetch w r0 = (Inr resp1, w1)"
    and "hr_ok resp1" and "hr_json resp1 = Inr data1" and "extract_text data1 = Inr text1"
    and "checkOutput parse (length items) text1 = Inl e1"
  shows "snd (snd (callOpenAI parse fetch (Some key) model items diff w)) = [r0, r1]
       \<and> (\<forall>resp2 w2 data2 text2.
             fetch w1 r1 = (Inr resp2, w2) \<and> hr_ok resp2 \<and> hr_json resp2 = Inr data2
             \<and> extract_text data2 = Inr text2 \<longrightarrow>
               (\<forall>e2. checkOutput parse (length items) text2 = Inl e2 \<longrightarrow>
                  fst (callOpenAI parse fetch (Some key) model items diff w)
                    = Inl (Error (str ''Model returned invalid JSON after retries: '' @ err_text e2)))
               \<and> (\<forall>out. checkOutput parse (length items) text2 = Inr out \<longrightarrow>
                  fst (callOpenAI parse fetch (Some key) model items diff w) = Inr out))
       \<and> (\<forall>xs. length xs \<noteq> length items \<longrightarrow>
             validateBatch (length items) (JObj [(str ''items'', JArr xs)])
               = Inl (Error ([39] @ str ''items'' @ [39] @ str '' length '' @ dec (length xs)
                             @ str '' !== expected '' @ dec (length items) @ str ''.'')))"
proof -
  let ?n = "length items"
  let ?call = "callOpenAI parse fetch (Some key) model items diff w"
  let ?a1 = "attemptOnce parse fetch key model items diff 1 (Some (err_text e1)) w1"
  have q0: "request key model items diff (system_lines ?n 0 None) = r0"
    by (simp add: request_def system_lines_def assms(2))
  have q1: "request key model items diff (system_lines ?n (Suc 0) (Some (err_text e1))) = r1"
    using request_retry [OF err_text_nonempty, of key model items diff e1]
    by (simp add: q0 assms(3))
  have a0: "attemptOnce parse fetch key model items diff 0 None w = (Invalid (err_text e1), w1, r0)"
    using attemptOnce_invalid [of fetch w key model items diff 0 None resp1 w1 data1 text1 parse e1]
      assms(4-8)
    by (simp add: q0)
  obtain res w2 rr where a1: "?a1 = (res, w2, rr)"
    by (metis prod_cases3)
  have "snd (snd ?a1) = r1"
    using attemptOnce_request [of parse fetch key model items diff 1 "Some (err_text e1)" w1]
    by (simp add: q1)
  with a1 have rr: "rr = r1" by simp
  have call: "?call = callLoop parse fetch key model items diff 0 None w []"
    using assms(1) by (simp add: callOpenAI_def)
  note loop = callLoop_after_invalid [OF a0]
  have sent: "snd (snd ?call) = [r0, r1]"
    using a1 rr by (cases res) (simp_all add: call loop)
  have res: "fst ?call = (case fst ?a1 of
                            Returned out \<Rightarrow> Inr out
                          | Thrown e \<Rightarrow> Inl e
                          | Invalid m2 \<Rightarrow>
                              Inl (Error (str ''Model returned invalid JSON after retries: '' @ m2)))"
    using a1 by (cases res) (simp_all add: call loop)
  have second: "fst ?a1 = (case checkOutput parse ?n text2 of
                             Inl e \<Rightarrow> Invalid (err_text e) | Inr out \<Rightarrow> Returned out)"
    if "fetch w1 r1 = (Inr resp2, w2)" "hr_ok resp2" "hr_json resp2 = Inr data2"
      "extract_text data2 = Inr text2" for resp2 w2 data2 text2
    using attemptOnce_checked [of fetch w1 key model items diff 1 "Some (err_text e1)" resp2 w2 data2 text2 parse]
      that
    by (simp add: q1)
  have "validateBatch ?n (JObj [(str ''items'', JArr xs)])
               = Inl (Error ([39] @ str ''items'' @ [39] @ str '' length '' @ dec (length xs)
                             @ str '' !== expected '' @ dec ?n @ str ''.''))"
    if "length xs \<noteq> ?n" for xs
    using that by (simp add: validateBatch_def)
  moreover have "fst ?call = Inl (Error (str ''Model returned invalid JSON after retries: '' @ err_text e2))"
    if "fetch w1 r1 = (Inr resp2, w2)" "hr_ok resp2" "hr_json resp2 = Inr data2"
      "extract_text data2 = Inr text2" "checkOutput parse ?n text2 = Inl e2"
    for resp2 w2 data2 text2 e2
    using second [OF that(1-4)] that(5) by (simp add: res)
  moreover have "fst ?call = Inr out"
    if "fetch w1 r1 = (Inr resp2, w2)" "hr_ok resp2" "hr_json resp2 = Inr data2"
      "extract_text data2 = Inr text2" "checkOutput parse ?n text2 = Inr out"
    for resp2 w2 data2 text2 out
    using second [OF that(1-4)] that(5) by (simp add: res)
  ultimately show ?thesis
    using sent by blast
qed

theorem callOpenAI_retries_once_witness:
  "fst (callOpenAI ex_parse ex_fetch (Some (str ''k'')) (str ''gpt-4o-mini'') [ex_plan_item] Medium 0)
     = Inl (Error (str ''Model returned invalid JSON after retries: '' @ [39] @ str ''items'' @ [39]
                   @ str '' length 0 !== expected 1.''))
   \<and> length (snd (snd (callOpenAI ex_parse ex_fetch (Some (str ''k'')) (str ''gpt-4o-mini'')
                          [ex_plan_item] Medium 0))) = 2
   \<and> map rq_items (snd (snd (callOpenAI ex_parse ex_fetch (Some (str ''k'')) (str ''gpt-4o-mini'')
                          [ex_plan_item] Medium 0)))
       = replicate 2 [\<lparr>ri_type = Single, ri_domain = str ''1.0 Mobile Devices'',
                        ri_objectiveId = str ''1.1'', ri_objectiveTitle = str ''Objective 1.1'',
                        ri_objectiveBullets = []\<rparr>]"
proof -
  let ?text = "[123] @ [34] @ str ''items'' @ [34] @ str '': []}''"
  let ?data = "JObj [(str ''output_text'', JStr ?text)]"
  let ?e = "Error ([39] @ str ''items'' @ [39] @ str '' length 0 !== expected 1.'')"
  let ?call = "callOpenAI ex_parse ex_fetch (Some (str ''k'')) (str ''gpt-4o-mini'') [ex_plan_item] Medium 0"
  have k: "str ''k'' \<noteq> []"
    by (simp add: str_def)
  have c: "checkOutput ex_parse (length [ex_plan_item]) ?text = Inl ?e"
    by (simp add: checkOutput_def extractJsonObject_def ex_parse_def validateBatch_def str_def
        dec_0 dec_Suc_0 Let_def)
  have x: "extract_text ?data = Inr ?text"
    by (simp add: extract_text_def js_prop_def)
  have f: "ex_fetch w r = (Inr ex_response, Suc w)" for w r
    by (simp add: ex_fetch_def)
  have ok: "hr_ok ex_response" and j: "hr_json ex_response = Inr ?data"
    by (simp_all add: ex_response_def)
  have tr: "js_trim (str ''1.0'' @ 32 # str ''Mobile Devices'') = str ''1.0 Mobile Devices''"
    by (simp add: js_trim_def js_space_def str_def)
  note t = callOpenAI_retries_once [where parse = ex_parse and ?e1.0 = ?e and fetch = ex_fetch
      and w = 0 and ?w1.0 = "Suc 0" and model = "str ''gpt-4o-mini''"
      and diff = Medium and items = "[ex_plan_item]" and key = "str ''k''",
      OF k refl refl f ok j x c]
  from t [THEN conjunct1] have sent: "length (snd (snd ?call)) = 2"
    by simp
  from t [THEN conjunct1] have "map rq_items (snd (snd ?call))
       = replicate 2 [\<lparr>ri_type = Single, ri_domain = str ''1.0 Mobile Devices'',
                        ri_objectiveId = str ''1.1'', ri_objectiveTitle = str ''Objective 1.1'',
                        ri_objectiveBullets = []\<rparr>]"
    by (simp add: ex_plan_item_def tr numeral_2_eq_2)
  moreover from t f ok j x c
  have "fst ?call = Inl (Error (str ''Model returned invalid JSON after retries: '' @ err_text ?e))"
    by blast
  ultimately show ?thesis
    using sent by (simp add: err_text_def or_else_def)
qed

section \<open>Properties of binary64 rounding\<close>


lemma flog2_bounds: "0 < n \<Longrightarrow> 2 ^ flog2 n \<le> n \<and> n < 2 ^ Suc (flog2 n)"
proof (induction n rule: flog2.induct)
  case (1 n)
  show ?case
  proof (cases "n < 2")
    case True
    with 1(2) show ?thesis by (simp add: flog2.simps [of n])
  next
    case False
    then have "0 < n div 2" by simp
    with 1(1) False have ih: "2 ^ flog2 (n div 2) \<le> n div 2 \<and> n div 2 < 2 ^ Suc (flog2 (n div 2))"
      by simp
    from False have f: "flog2 n = Suc (flog2 (n div 2))" by (simp add: flog2.simps [of n])
    from ih show ?thesis unfolding f by (simp; linarith)
  qed
qed

lemma clog2_bounds: "0 < n \<Longrightarrow> n \<le> 2 ^ clog2 n \<and> (1 < n \<longrightarrow> 2 ^ (clog2 n - 1) < n)"
proof (cases "n \<le> 1")
  case True
  then show ?thesis by (simp add: clog2_def)
next
  case False
  then have "0 < n - 1" by simp
  from flog2_bounds [OF this] False show ?thesis
    by (auto simp: clog2_def)
qed

lemma pow2_powi: "pow2 e = 2 powi e"
  by (simp add: pow2_def power_int_def field_simps)

lemma pow2_pos [simp]: "0 < pow2 e"
  by (simp add: pow2_powi)

lemma pow2_add: "pow2 (a + b) = pow2 a * pow2 b"
  by (simp add: pow2_powi power_int_add)

lemma pow2_nat: "pow2 (int n) = 2 ^ n"
  by (simp add: pow2_def)

lemma pow2_mono: "a \<le> b \<Longrightarrow> pow2 a \<le> pow2 b"
  by (simp add: pow2_powi power_int_increasing)

lemma pow2_strict_mono: "a < b \<Longrightarrow> pow2 a < pow2 b"
  by (simp add: pow2_powi power_int_strict_increasing)

lemma pow2_1: "pow2 1 = 2"
  by (simp add: pow2_def)

lemma pow2_Suc: "pow2 (e + 1) = 2 * pow2 e"
  by (simp add: pow2_add pow2_1)

lemma pow2_minus: "pow2 (- e) = 1 / pow2 e"
  by (simp add: pow2_powi power_int_minus field_simps)

lemma binexp_bounds:
  assumes "0 < x"
  shows "pow2 (binexp x) \<le> x \<and> x < pow2 (binexp x + 1)"
proof (cases "1 \<le> x")
  case True
  then have n: "0 < nat \<lfloor>x\<rfloor>" by linarith
  from flog2_bounds [OF n]
  have lo: "(2::nat) ^ flog2 (nat \<lfloor>x\<rfloor>) \<le> nat \<lfloor>x\<rfloor>"
    and hi: "nat \<lfloor>x\<rfloor> < 2 ^ Suc (flog2 (nat \<lfloor>x\<rfloor>))" by auto
  from lo have "(of_nat (2 ^ flog2 (nat \<lfloor>x\<rfloor>)) :: rat) \<le> of_nat (nat \<lfloor>x\<rfloor>)"
    by (simp only: of_nat_le_iff)
  also have "\<dots> \<le> x" using True by (simp add: of_nat_nat)
  finally have 1: "pow2 (binexp x) \<le> x"
    using True by (simp add: binexp_def pow2_nat)
  from hi have "\<lfloor>x\<rfloor> < 2 ^ Suc (flog2 (nat \<lfloor>x\<rfloor>))"
    using True by (simp add: nat_less_iff)
  then have "x < of_int (2 ^ Suc (flog2 (nat \<lfloor>x\<rfloor>)))"
    by (simp only: floor_less_iff)
  then have 2: "x < pow2 (binexp x + 1)"
    using True by (simp add: binexp_def pow2_Suc pow2_nat)
  from 1 2 show ?thesis ..
next
  case False
  define y where "y = 1 / x"
  have y1: "1 < y" using False assms by (simp add: y_def)
  define n where "n = nat \<lceil>y\<rceil>"
  have n1: "1 < n" using y1 unfolding n_def by linarith
  then have n0: "0 < n" by simp
  have be: "binexp x = - int (clog2 n)"
    using False by (simp add: binexp_def n_def y_def)
  from clog2_bounds [OF n0] n1 have up: "n \<le> 2 ^ clog2 n" and lo: "2 ^ (clog2 n - 1) < n"
    by auto
  have "y \<le> of_int \<lceil>y\<rceil>" by linarith
  also have "\<dots> = of_nat n" using y1 by (simp add: n_def)
  also have "\<dots> \<le> of_nat (2 ^ clog2 n)" using up by (simp only: of_nat_le_iff)
  finally have "y \<le> 2 ^ clog2 n" by simp
  then have 1: "pow2 (binexp x) \<le> x"
    using assms by (simp add: be pow2_minus pow2_nat y_def field_simps)
  have c1: "1 \<le> clog2 n" using n1 by (simp add: clog2_def)
  from lo have "int (2 ^ (clog2 n - 1)) < \<lceil>y\<rceil>"
    using y1 by (simp add: n_def)
  then have "of_int (int (2 ^ (clog2 n - 1))) < y"
    by (simp only: less_ceiling_iff)
  then have "2 ^ (clog2 n - 1) < y" by simp
  moreover have "binexp x + 1 = - int (clog2 n - 1)" using c1 by (simp add: be)
  ultimately have 2: "x < pow2 (binexp x + 1)"
    using assms by (simp add: pow2_minus pow2_nat y_def field_simps)
  from 1 2 show ?thesis ..
qed

lemma round_half_even_cases:
  "round_half_even m = \<lfloor>m\<rfloor> \<and> m - of_int \<lfloor>m\<rfloor> \<le> 1 / 2
   \<or> round_half_even m = \<lfloor>m\<rfloor> + 1 \<and> 1 / 2 \<le> m - of_int \<lfloor>m\<rfloor>"
  by (simp add: round_half_even_def Let_def)

lemma round_half_even_error: "\<bar>of_int (round_half_even m) - m\<bar> \<le> 1 / 2"
proof -
  have "of_int \<lfloor>m\<rfloor> \<le> m" "m < of_int \<lfloor>m\<rfloor> + 1"
    by linarith+
  with round_half_even_cases [of m] show ?thesis
    by auto
qed

lemma round_half_even_of_int [simp]: "round_half_even (of_int z) = z"
  by (simp add: round_half_even_def)

lemma round_half_even_nonneg: "0 \<le> m \<Longrightarrow> 0 \<le> round_half_even m"
  using round_half_even_cases [of m] by (auto simp: add_nonneg_nonneg)

text \<open>Rounding a positive number below the overflow range.\<close>

lemma round64_pos:
  assumes "0 < x" and "x < pow2 1023"
  shows "\<exists>r. round64 x = Fin r \<and> 0 \<le> r
            \<and> \<bar>r - x\<bar> \<le> pow2 (max (binexp x) (- 1022) - 53)"
proof -
  define e where "e = max (binexp x) (- 1022)"
  define u where "u = pow2 (e - 52)"
  define r where "r = of_int (round_half_even (x / u)) * u"
  have u0: "0 < u" by (simp add: u_def)
  have half: "pow2 (e - 53) = u / 2"
    using pow2_Suc [of "e - 53"] by (simp add: u_def)
  have "\<bar>of_int (round_half_even (x / u)) - x / u\<bar> \<le> 1 / 2"
    by (rule round_half_even_error)
  then have "\<bar>of_int (round_half_even (x / u)) - x / u\<bar> * u \<le> 1 / 2 * u"
    using u0 by (simp only: mult_le_cancel_right_pos)
  moreover have "\<bar>of_int (round_half_even (x / u)) - x / u\<bar> * u = \<bar>r - x\<bar>"
  proof -
    have "(of_int (round_half_even (x / u)) - x / u) * u = r - x"
      using u0 by (simp add: r_def field_simps)
    then have "\<bar>r - x\<bar> = \<bar>of_int (round_half_even (x / u)) - x / u\<bar> * \<bar>u\<bar>"
      by (simp only: abs_mult [symmetric])
    with u0 show ?thesis by simp
  qed
  ultimately have err: "\<bar>r - x\<bar> \<le> pow2 (e - 53)"
    by (simp add: half)
  have r0: "0 \<le> r"
    using u0 assms(1) by (simp add: r_def round_half_even_nonneg)
  have "e \<le> 1022 \<or> e = binexp x" by (auto simp: e_def)
  have ex: "pow2 e \<le> pow2 1023"
  proof (cases "binexp x \<le> - 1022")
    case True
    then show ?thesis by (simp add: e_def pow2_mono)
  next
    case False
    then have "e = binexp x" by (simp add: e_def)
    moreover have "pow2 (binexp x) \<le> x" using binexp_bounds [OF assms(1)] by simp
    ultimately show ?thesis using assms(2) by simp
  qed
  have "pow2 (e - 53) \<le> pow2 e" by (simp add: pow2_mono)
  with err ex have "r \<le> x + pow2 1023" by linarith
  with assms(2) have "r < pow2 1023 + pow2 1023" by linarith
  then have nov: "\<not> pow2 1024 \<le> r"
    using pow2_Suc [of 1023] by simp
  have "round64 x = Fin r"
    using assms(1) nov
    by (simp add: round64_def Let_def e_def [symmetric] u_def [symmetric] r_def [symmetric])
  with r0 err show ?thesis
    by (auto simp: e_def)
qed

lemma pow2_diff_53: "pow2 (e - 53) = pow2 e / 2 ^ 53"
proof -
  have "pow2 (e - 53) = pow2 e * pow2 (- 53)"
    using pow2_add [of e "- 53"] by simp
  also have "pow2 (- 53) = 1 / 2 ^ 53"
    by (simp add: pow2_def)
  finally show ?thesis by simp
qed

text \<open>In relative terms, with the spacing of the subnormal numbers as a floor.\<close>

lemma round64_pos_rel:
  assumes "0 < x" and "x < pow2 1023"
  shows "\<exists>r. round64 x = Fin r \<and> 0 \<le> r \<and> \<bar>r - x\<bar> \<le> x / 2 ^ 53 + pow2 (- 1075)"
proof -
  from round64_pos [OF assms] obtain r where
    r: "round64 x = Fin r" "0 \<le> r" "\<bar>r - x\<bar> \<le> pow2 (max (binexp x) (- 1022) - 53)"
    by blast
  have "pow2 (max (binexp x) (- 1022) - 53) \<le> x / 2 ^ 53 + pow2 (- 1075)"
  proof (cases "binexp x \<le> - 1022")
    case True
    then have "max (binexp x) (- 1022) - 53 = - 1075" by simp
    moreover have "0 \<le> x / 2 ^ 53" using assms(1) by simp
    ultimately show ?thesis by simp
  next
    case False
    then have "max (binexp x) (- 1022) - 53 = binexp x - 53" by simp
    moreover have "pow2 (binexp x) \<le> x" using binexp_bounds [OF assms(1)] by simp
    then have "pow2 (binexp x) / 2 ^ 53 \<le> x / 2 ^ 53" by (simp add: divide_right_mono)
    moreover have "0 \<le> pow2 (- 1075)" by (simp add: less_imp_le)
    ultimately show ?thesis by (simp add: pow2_diff_53)
  qed
  with r show ?thesis by fastforce
qed

lemma pow2_numeral_le: "(2::rat) ^ 1000 \<le> pow2 1023"
proof -
  have "(2::rat) ^ 1000 \<le> 2 ^ 1023"
    by (rule power_increasing) simp_all
  also have "\<dots> = pow2 1023"
    using pow2_nat [of 1023] by simp
  finally show ?thesis .
qed

lemma round64_0 [simp]: "round64 0 = Fin 0"
  by (simp add: round64_def)

text \<open>\<open>Math.floor(r * n)\<close> for a binary64 number \<open>r\<close> in [0, 1) is an index below \<open>n\<close>.\<close>

lemma floor_mul_index:
  assumes r: "0 \<le> r" "r \<le> 1 - 1 / 2 ^ 53" and n: "0 < n" "n < 2 ^ 1000"
  shows "\<exists>j<n. js_floor (js_mul (Fin r) (num n)) = Fin (of_nat j)"
proof (cases "r = 0")
  case True
  have "js_floor (js_mul (Fin 0) (num n)) = Fin (of_nat 0)"
    by (simp add: num_def)
  with n(1) True show ?thesis
    by blast
next
  case False
  define m :: rat where "m = of_nat n"
  define x where "x = r * m"
  have m1: "1 \<le> m" using n(1) by (simp add: m_def)
  have x0: "0 < x" using False r(1) m1 by (simp add: x_def)
  have xn: "x \<le> (1 - 1 / 2 ^ 53) * m"
    unfolding x_def using r(2) m1 by (intro mult_right_mono) simp_all
  have "(of_nat n :: rat) < of_nat (2 ^ 1000)" using n(2) by (simp only: of_nat_less_iff)
  then have nb: "m < 2 ^ 1000" by (simp add: m_def)
  have "(1 - 1 / 2 ^ 53) * m \<le> m"
    using m1 by (simp add: field_simps)
  with xn nb pow2_numeral_le have xb: "x < pow2 1023"
    by linarith
  from round64_pos_rel [OF x0 xb] obtain y where
    y: "round64 x = Fin y" "0 \<le> y" "\<bar>y - x\<bar> \<le> x / 2 ^ 53 + pow2 (- 1075)"
    by blast
  have d: "pow2 (- 1075) < 1 / 2 ^ 106"
  proof -
    have "(2::rat) ^ 106 < 2 ^ 1075"
      by (rule power_strict_increasing) simp_all
    then have "1 / (2::rat) ^ 1075 < 1 / 2 ^ 106"
      by (simp add: field_simps)
    then show ?thesis
      by (simp add: pow2_def)
  qed
  have "x + x / 2 ^ 53 = x * (1 + 1 / 2 ^ 53)"
    by (simp add: field_simps)
  also have "\<dots> \<le> (1 - 1 / 2 ^ 53) * m * (1 + 1 / 2 ^ 53)"
    using xn by (intro mult_right_mono) simp_all
  also have "\<dots> = m - m / 2 ^ 106"
    by (simp add: field_simps)
  finally have "x + x / 2 ^ 53 \<le> m - m / 2 ^ 106" .
  moreover have "1 / 2 ^ 106 \<le> m / 2 ^ 106"
    using m1 by (simp add: divide_right_mono)
  moreover have "y \<le> x + x / 2 ^ 53 + pow2 (- 1075)"
    using y(3) by linarith
  ultimately have yn: "y < m"
    using d by linarith
  define j where "j = nat \<lfloor>y\<rfloor>"
  have "\<lfloor>y\<rfloor> < int n" using yn by (simp add: floor_less_iff m_def)
  moreover have "0 \<le> \<lfloor>y\<rfloor>" using y(2) by simp
  ultimately have "j < n" and "of_int \<lfloor>y\<rfloor> = (of_nat j :: rat)"
    by (simp_all add: j_def nat_less_iff)
  moreover have "js_mul (Fin r) (num n) = Fin y"
    using y(1) by (simp add: num_def x_def m_def)
  ultimately show ?thesis
    by auto
qed

text \<open>Evaluating floors and ceilings of rational numerals.\<close>

lemma floor_rat_numeral [simp]: "\<lfloor>(numeral a :: rat) / numeral b\<rfloor> = numeral a div numeral b"
  using floor_divide_of_int_eq [of "numeral a" "numeral b", where ?'a = rat] by simp

lemma floor_rat_neg_numeral [simp]:
  "\<lfloor>- ((numeral a :: rat) / numeral b)\<rfloor> = - numeral a div numeral b"
  using floor_divide_of_int_eq [of "- numeral a" "numeral b", where ?'a = rat] by simp

lemma ceiling_rat_numeral [simp]:
  "\<lceil>(numeral a :: rat) / numeral b\<rceil> = - (- numeral a div numeral b)"
  using floor_rat_neg_numeral [of a b] by (simp add: ceiling_def)

lemmas flog2_numeral = flog2.simps [of "numeral k"] for k

lemma flog2_Suc_0: "flog2 (Suc 0) = 0"
  by (simp add: flog2.simps [of "Suc 0"])

lemmas round64_eval = round64_def binexp_def clog2_def pow2_def round_half_even_def Let_def
  flog2_numeral flog2_Suc_0

lemma binexp_unique:
  assumes "0 < x" and "pow2 e \<le> x" and "x < pow2 (e + 1)"
  shows "binexp x = e"
proof (rule ccontr)
  assume ne: "binexp x \<noteq> e"
  from binexp_bounds [OF assms(1)]
  have b: "pow2 (binexp x) \<le> x" "x < pow2 (binexp x + 1)" by simp_all
  show False
  proof (cases "binexp x < e")
    case True
    then have "pow2 (binexp x + 1) \<le> pow2 e" by (simp add: pow2_mono)
    with b(2) assms(2) show False by linarith
  next
    case False
    with ne have "e + 1 \<le> binexp x" by simp
    then have "pow2 (e + 1) \<le> pow2 (binexp x)" by (rule pow2_mono)
    with b(1) assms(3) show False by linarith
  qed
qed

text \<open>Rounding a positive number of known binary exponent in the normal range.\<close>

lemma round64_at:
  assumes "0 < x" and "pow2 e \<le> x" and "x < pow2 (e + 1)" and "- 1022 \<le> e" and "e \<le> 1022"
    and "round_half_even (x / pow2 (e - 52)) = z"
  shows "round64 x = Fin (of_int z * pow2 (e - 52))"
proof -
  have be: "binexp x = e"
    by (rule binexp_unique [OF assms(1-3)])
  have "pow2 (e + 1) \<le> pow2 1023"
    using assms(5) by (simp add: pow2_mono)
  with assms(3) have "x < pow2 1023" by linarith
  from round64_pos [OF assms(1) this] obtain r where r: "round64 x = Fin r"
    by blast
  moreover have "max e (- 1022) = e" using assms(4) by simp
  ultimately show ?thesis
    using assms(1,6) by (simp add: round64_def Let_def be split: if_splits)
qed

lemma round64_neg: "round64 (- x) = js_neg (round64 x)"
  by (simp add: round64_def Let_def)

section \<open>Properties of the session planner\<close>


lemmas r64 = pow2_def round_half_even_def Let_def

text \<open>A binary64 number below 1 is at most \<open>1 - 2 ^ -53\<close>.\<close>

lemma double_below_1:
  assumes "round64 x = Fin x" and "x < 1"
  shows "x \<le> 1 - 1 / 2 ^ 53"
proof (rule ccontr)
  define c :: rat where "c = 2 ^ 53"
  have c0: "0 < c" by (simp add: c_def)
  assume "\<not> x \<le> 1 - 1 / 2 ^ 53"
  then have lo: "1 - 1 / c < x" by (simp add: c_def)
  have "0 \<le> 1 - 1 / c" by (simp add: c_def)
  with lo have x0: "0 < x" by linarith
  have "1 / 2 \<le> 1 - 1 / c" by (simp add: c_def)
  with lo have p1: "pow2 (- 1) \<le> x" by (simp add: pow2_def)
  have p2: "x < pow2 (- 1 + 1)" using assms(2) by (simp add: pow2_def)
  have u: "pow2 (- 1 - 52) = 1 / c" by (simp add: pow2_def c_def)
  from round64_at [OF x0 p1 p2 _ _ refl]
  have "round64 x = Fin (of_int (round_half_even (x / pow2 (- 1 - 52))) * pow2 (- 1 - 52))"
    by simp
  with assms(1) have "x = of_int (round_half_even (x / (1 / c))) * (1 / c)"
    by (simp only: u jsnum.inject)
  with c0 have "x * c = of_int (round_half_even (x / (1 / c)))"
    by (simp add: field_simps)
  then obtain z :: int where z: "x * c = of_int z" ..
  from lo c0 have "c - 1 < x * c" by (simp add: field_simps)
  with z have "(of_int (2 ^ 53 - 1) :: rat) < of_int z" by (simp add: c_def)
  then have a: "2 ^ 53 - 1 < z" by (simp only: of_int_less_iff)
  from assms(2) c0 have "x * c < c" by simp
  with z have "(of_int z :: rat) < of_int (2 ^ 53)" by (simp add: c_def)
  then have "z < 2 ^ 53" by (simp only: of_int_less_iff)
  with a show False by simp
qed

lemma js_index_of_nat: "j < length xs \<Longrightarrow> js_index xs (Fin (of_nat j)) = Some (xs ! j)"
  by (simp add: js_index_def nth_opt_def)

lemma random_index_bound:
  assumes "unit_doubles rand" and "0 < n" and "n < 2 ^ 1000"
  shows "\<exists>j<n. random_index rand k n = Fin (of_nat j)"
proof -
  from assms(1) have "round64 (rand k) = Fin (rand k)" "0 \<le> rand k" "rand k < 1"
    by (simp_all add: unit_doubles_def)
  then have "0 \<le> rand k" "rand k \<le> 1 - 1 / 2 ^ 53"
    using double_below_1 by blast+
  from floor_mul_index [OF this assms(2,3)] show ?thesis
    by (simp add: random_index_def)
qed

lemma random_pick:
  assumes "unit_doubles rand" and "xs \<noteq> []" and "length xs < 2 ^ 1000"
  shows "\<exists>j<length xs. js_index xs (random_index rand k (length xs)) = Some (xs ! j)"
proof -
  from assms(2) have "0 < length xs" by simp
  from random_index_bound [OF assms(1) this assms(3)] obtain j where
    "j < length xs" "random_index rand k (length xs) = Fin (of_nat j)" by blast
  then show ?thesis
    by (auto simp: js_index_of_nat)
qed

lemma planned_for_type [simp]: "planned_for cat cr d (p\<lparr>pi_type := t\<rparr>) = planned_for cat cr d p"
  by (simp add: planned_for_def)

lemma drawObjectives_ok:
  assumes "unit_doubles rand" and "length ids < 2 ^ 1000"
    and "ids = listObjectivesByDomain cat cr (bp_domainNumber d)"
  shows "\<exists>items k'. drawObjectives cat rand cr d ids n k plan = Inr (plan @ items, k')
           \<and> length items = n \<and> (\<forall>p\<in>set items. planned_for cat cr d p)"
proof (induction n arbitrary: k plan)
  case 0
  show ?case by simp
next
  case (Suc n)
  show ?case
  proof (cases "ids = []")
    case True
    let ?p = "\<lparr>domainNumber = bp_domainNumber d, domainLabel = bp_domainLabel d,
                objectiveId = before_dot (bp_domainNumber d) @ str ''.1'',
                objectiveTitle = (case getObjectiveMeta cat cr (before_dot (bp_domainNumber d) @ str ''.1'') of
                                    None \<Rightarrow> str ''Objective '' @ (before_dot (bp_domainNumber d) @ str ''.1'')
                                  | Some m \<Rightarrow> om_title m),
                objectiveBullets = (case getObjectiveMeta cat cr (before_dot (bp_domainNumber d) @ str ''.1'') of
                                      None \<Rightarrow> [] | Some m \<Rightarrow> om_bullets m),
                pi_type = Single\<rparr>"
    from Suc.IH [of k "plan @ [?p]"] obtain items k' where
      r: "drawObjectives cat rand cr d ids n k (plan @ [?p]) = Inr ((plan @ [?p]) @ items, k')"
        "length items = n" "\<forall>p\<in>set items. planned_for cat cr d p"
      by blast
    have "planned_for cat cr d ?p"
      using True assms(3) by (simp add: planned_for_def)
    with r True show ?thesis
      by (intro exI [of _ "?p # items"] exI [of _ k']) simp
  next
    case False
    from random_pick [OF assms(1) False assms(2)] obtain j where
      j: "j < length ids" "js_index ids (random_index rand k (length ids)) = Some (ids ! j)"
      by blast
    let ?o = "ids ! j"
    let ?p = "\<lparr>domainNumber = bp_domainNumber d, domainLabel = bp_domainLabel d,
                objectiveId = ?o,
                objectiveTitle = (case getObjectiveMeta cat cr ?o of
                                    None \<Rightarrow> str ''Objective '' @ ?o | Some m \<Rightarrow> om_title m),
                objectiveBullets = (case getObjectiveMeta cat cr ?o of
                                      None \<Rightarrow> [] | Some m \<Rightarrow> om_bullets m),
                pi_type = Single\<rparr>"
    from Suc.IH [of "k + 1" "plan @ [?p]"] obtain items k' where
      r: "drawObjectives cat rand cr d ids n (k + 1) (plan @ [?p]) = Inr ((plan @ [?p]) @ items, k')"
        "length items = n" "\<forall>p\<in>set items. planned_for cat cr d p"
      by blast
    have "planned_for cat cr d ?p"
      using False assms(3) j(1) by (simp add: planned_for_def)
    with r False j(2) show ?thesis
      by (intro exI [of _ "?p # items"] exI [of _ k']) simp
  qed
qed

lemma planDomains_ok:
  assumes "unit_doubles rand" and "length (cat cr) < 2 ^ 1000"
    and "\<forall>d\<in>set ds. iterations (case map_of allocation (bp_domainNumber d) of
                                    None \<Rightarrow> Fin 0 | Some c \<Rightarrow> c) = Some (nd d)"
  shows "\<exists>items k'. planDomains cat rand cr allocation ds k plan = Some (Inr (plan @ items, k'))
           \<and> length items = sum_list (map nd ds)
           \<and> (\<forall>p\<in>set items. \<exists>d\<in>set ds. planned_for cat cr d p)"
  using assms(3)
proof (induction ds arbitrary: k plan)
  case Nil
  show ?case by simp
next
  case (Cons d ds)
  let ?ids = "listObjectivesByDomain cat cr (bp_domainNumber d)"
  have "length ?ids \<le> length (cat cr)"
    by (simp add: listObjectivesByDomain_def listObjectiveIds_def)
  with assms(2) have len: "length ?ids < 2 ^ 1000" by simp
  from Cons.prems have it: "iterations (case map_of allocation (bp_domainNumber d) of
                                    None \<Rightarrow> Fin 0 | Some c \<Rightarrow> c) = Some (nd d)"
    by simp
  from drawObjectives_ok [OF assms(1) len refl, of "nd d" k plan] obtain items1 k1 where
    d1: "drawObjectives cat rand cr d ?ids (nd d) k plan = Inr (plan @ items1, k1)"
      "length items1 = nd d" "\<forall>p\<in>set items1. planned_for cat cr d p"
    by blast
  from Cons.prems have "\<forall>d\<in>set ds. iterations (case map_of allocation (bp_domainNumber d) of
                                    None \<Rightarrow> Fin 0 | Some c \<Rightarrow> c) = Some (nd d)"
    by simp
  from Cons.IH [OF this, of k1 "plan @ items1"] obtain items2 k2 where
    d2: "planDomains cat rand cr allocation ds k1 (plan @ items1) = Some (Inr ((plan @ items1) @ items2, k2))"
      "length items2 = sum_list (map nd ds)"
      "\<forall>p\<in>set items2. \<exists>d\<in>set ds. planned_for cat cr d p"
    by blast
  show ?case
    using it d1 d2
    by (intro exI [of _ "items1 @ items2"] exI [of _ k2]) auto
qed

lemma same_but_types_refl: "same_but_types xs xs"
  unfolding same_but_types_def
  by (rule list_all2_refl) (metis PlanItem.surjective PlanItem.update_convs(6))

lemma same_but_types_update:
  assumes "same_but_types xs ys" and "i < length ys"
  shows "same_but_types xs (ys[i := (ys ! i)\<lparr>pi_type := t\<rparr>])"
proof -
  from assms(1) have len: "length xs = length ys"
    and all: "\<forall>j<length xs. \<exists>t. ys ! j = (xs ! j)\<lparr>pi_type := t\<rparr>"
    by (simp_all add: same_but_types_def list_all2_conv_all_nth)
  have "\<exists>t'. (ys[i := (ys ! i)\<lparr>pi_type := t\<rparr>]) ! j = (xs ! j)\<lparr>pi_type := t'\<rparr>"
    if "j < length xs" for j
  proof (cases "j = i")
    case True
    from all that obtain t0 where "ys ! j = (xs ! j)\<lparr>pi_type := t0\<rparr>" by blast
    with True assms(2) have "(ys[i := (ys ! i)\<lparr>pi_type := t\<rparr>]) ! j = (xs ! j)\<lparr>pi_type := t\<rparr>"
      by simp
    then show ?thesis ..
  next
    case False
    with all that show ?thesis by simp
  qed
  with len show ?thesis
    by (simp add: same_but_types_def list_all2_conv_all_nth)
qed

lemma same_but_types_length: "same_but_types xs ys \<Longrightarrow> length ys = length xs"
  by (simp add: same_but_types_def list_all2_lengthD)

lemma js_index_zip:
  assumes "j < length xs"
  shows "js_index (zip [0..<length xs] xs) (Fin (of_nat j)) = Some (j, xs ! j)"
  using assms by (simp add: js_index_of_nat)

lemma injectPbqs_ok:
  assumes "unit_doubles rand" and "plan \<noteq> []" and "length plan < 2 ^ 1000" and "same_but_types plan0 plan"
  shows "\<exists>plan' k'. injectPbqs rand n k plan = Inr (plan', k') \<and> same_but_types plan0 plan'"
  using assms(2-4)
proof (induction n arbitrary: k plan)
  case 0
  then show ?case by simp
next
  case (Suc n)
  from Suc.prems(1) have "0 < length plan" by simp
  from random_index_bound [OF assms(1) this Suc.prems(2)] obtain j where
    j: "j < length plan" "random_index rand k (length plan) = Fin (of_nat j)" by blast
  define t where "t = (if rand (k + 1) < 1 / 2 then PbqOrder else PbqMatch)"
  define plan1 where "plan1 = plan[j := (plan ! j)\<lparr>pi_type := t\<rparr>]"
  have a: "plan1 \<noteq> []" "length plan1 < 2 ^ 1000"
    using Suc.prems(1,2) by (simp_all add: plan1_def)
  have b: "same_but_types plan0 plan1"
    unfolding plan1_def by (rule same_but_types_update [OF Suc.prems(3) j(1)])
  from Suc.IH [OF a b, of "k + 2"] obtain plan' k' where
    "injectPbqs rand n (k + 2) plan1 = Inr (plan', k')" "same_but_types plan0 plan'"
    by blast
  then show ?case
    using j by (simp add: js_index_zip plan1_def t_def)
qed

lemma sprinkleMulti_ok:
  assumes "unit_doubles rand" and "plan \<noteq> []" and "length plan < 2 ^ 1000" and "same_but_types plan0 plan"
  shows "\<exists>plan' k'. sprinkleMulti rand n k plan = Inr (plan', k') \<and> same_but_types plan0 plan'"
  using assms(2-4)
proof (induction n arbitrary: k plan)
  case 0
  then show ?case by simp
next
  case (Suc n)
  from Suc.prems(1) have "0 < length plan" by simp
  from random_index_bound [OF assms(1) this Suc.prems(2)] obtain j where
    j: "j < length plan" "random_index rand k (length plan) = Fin (of_nat j)" by blast
  define plan1 where
    "plan1 = (if pi_type (plan ! j) = Single then plan[j := (plan ! j)\<lparr>pi_type := Multi\<rparr>] else plan)"
  have a: "plan1 \<noteq> []" "length plan1 < 2 ^ 1000"
    using Suc.prems(1,2) by (simp_all add: plan1_def)
  have b: "same_but_types plan0 plan1"
    unfolding plan1_def using same_but_types_update [OF Suc.prems(3) j(1)] Suc.prems(3) by simp
  from Suc.IH [OF a b, of "k + 1"] obtain plan' k' where
    "sprinkleMulti rand n (k + 1) plan1 = Inr (plan', k')" "same_but_types plan0 plan'"
    by blast
  then show ?case
    using j by (simp add: js_index_zip plan1_def)
qed

lemma pbq_iterations: "\<exists>n. iterations (js_max (Fin 0) (js_min c (Fin 12))) = Some n"
proof (cases c)
  case (Fin r)
  have "(12::rat) \<le> 2 ^ 53" by simp
  then show ?thesis
    using Fin by (auto simp: js_max_def js_min_def iterations_def)
qed (simp_all add: js_max_def js_min_def iterations_def)

lemma multi_iterations:
  "iterations (js_min (Fin 10) (js_floor (js_mul (num 90) (round64 (12 / 100))))) = Some 10"
proof -
  have a: "round64 (3 / 25) = Fin (1080863910568919 / 9007199254740992)"
    by (simp add: round64_at [where e = "-4"] r64)
  have b: "round64 (48638875975601355 / 4503599627370496) = Fin (6079859496950169 / 562949953421312)"
    by (simp add: round64_at [where e = "3"] r64)
  show ?thesis
    by (simp add: num_def a b js_min_def iterations_def)
qed

lemmas alloc_defs = allocateByWeight_def num_def raw_rows_def weight_sum_def
  used_sum_def by_remainder_def js_sort_def with_rem_def rem_of_def key_of_def js_sub_def iterations_def
  distribute_def bump_def str_def Let_def upt_conv_Cons

lemma alloc_core1:
  "allocateByWeight (num EXAM_QUESTION_COUNT) CORE1_BLUEPRINT
     = Some (Inr [(str ''1.0'', Fin 12), (str ''2.0'', Fin 21), (str ''3.0'', Fin 22),
                  (str ''4.0'', Fin 10), (str ''5.0'', Fin 25)])"
proof -
  have r0: "round64 (1 / 562949953421312) = Fin (1 / 562949953421312)"
    by (simp add: round64_at [where e = "-49"] r64)
  have r1: "round64 (11 / 100) = Fin (7926335344172073 / 72057594037927936)"
    by (simp add: round64_at [where e = "-4"] r64)
  have r2: "round64 (13 / 100) = Fin (1170935903116329 / 9007199254740992)"
    by (simp add: round64_at [where e = "-3"] r64)
  have r3: "round64 (56294995342131 / 281474976710656) = Fin (56294995342131 / 281474976710656)"
    by (simp add: round64_at [where e = "-3"] r64)
  have r4: "round64 (112589990684263 / 562949953421312) = Fin (112589990684263 / 562949953421312)"
    by (simp add: round64_at [where e = "-3"] r64)
  have r5: "round64 (14073748835533 / 70368744177664) = Fin (14073748835533 / 70368744177664)"
    by (simp add: round64_at [where e = "-3"] r64)
  have r6: "round64 (23 / 100) = Fin (8286623314361713 / 36028797018963968)"
    by (simp add: round64_at [where e = "-3"] r64)
  have r7: "round64 (1 / 4) = Fin (1 / 4)"
    by (simp add: round64_at [where e = "-2"] r64)
  have r8: "round64 (7 / 25) = Fin (1261007895663739 / 4503599627370496)"
    by (simp add: round64_at [where e = "-2"] r64)
  have r9: "round64 (21110623253299 / 70368744177664) = Fin (21110623253299 / 70368744177664)"
    by (simp add: round64_at [where e = "-2"] r64)
  have r10: "round64 (225179981368525 / 562949953421312) = Fin (225179981368525 / 562949953421312)"
    by (simp add: round64_at [where e = "-2"] r64)
  have r11: "round64 (140737488355327 / 281474976710656) = Fin (140737488355327 / 281474976710656)"
    by (simp add: round64_at [where e = "-2"] r64)
  have r12: "round64 (281474976710655 / 562949953421312) = Fin (281474976710655 / 562949953421312)"
    by (simp add: round64_at [where e = "-2"] r64)
  have r13: "round64 (1 / 2) = Fin (1 / 2)"
    by (simp add: round64_at [where e = "-1"] r64)
  have r14: "round64 (394064967394917 / 562949953421312) = Fin (394064967394917 / 562949953421312)"
    by (simp add: round64_at [where e = "-1"] r64)
  have r15: "round64 (197032483697459 / 281474976710656) = Fin (197032483697459 / 281474976710656)"
    by (simp add: round64_at [where e = "-1"] r64)
  have r16: "round64 (394064967394919 / 562949953421312) = Fin (394064967394919 / 562949953421312)"
    by (simp add: round64_at [where e = "-1"] r64)
  have r17: "round64 (506654958079181 / 562949953421312) = Fin (506654958079181 / 562949953421312)"
    by (simp add: round64_at [where e = "-1"] r64)
  have r18: "round64 (3) = Fin (3)"
    by (simp add: round64_at [where e = "1"] r64)
  have r19: "round64 (356685090487743285 / 36028797018963968) = Fin (5573204538870989 / 562949953421312)"
    by (simp add: round64_at [where e = "3"] r64)
  have r20: "round64 (10) = Fin (10)"
    by (simp add: round64_at [where e = "3"] r64)
  have r21: "round64 (11) = Fin (11)"
    by (simp add: round64_at [where e = "3"] r64)
  have r22: "round64 (52692115640234805 / 4503599627370496) = Fin (6586514455029351 / 562949953421312)"
    by (simp add: round64_at [where e = "3"] r64)
  have r23: "round64 (12) = Fin (12)"
    by (simp add: round64_at [where e = "3"] r64)
  have r24: "round64 (13) = Fin (13)"
    by (simp add: round64_at [where e = "3"] r64)
  have r25: "round64 (372898049146277085 / 18014398509481984) = Fin (5826532017910579 / 281474976710656)"
    by (simp add: round64_at [where e = "4"] r64)
  have r26: "round64 (21) = Fin (21)"
    by (simp add: round64_at [where e = "4"] r64)
  have r27: "round64 (45 / 2) = Fin (45 / 2)"
    by (simp add: round64_at [where e = "4"] r64)
  have r28: "round64 (56745355304868255 / 2251799813685248) = Fin (1773292353277133 / 70368744177664)"
    by (simp add: round64_at [where e = "4"] r64)
  have r29: "round64 (31) = Fin (31)"
    by (simp add: round64_at [where e = "4"] r64)
  have r30: "round64 (36) = Fin (36)"
    by (simp add: round64_at [where e = "5"] r64)
  have r31: "round64 (53) = Fin (53)"
    by (simp add: round64_at [where e = "5"] r64)
  have r32: "round64 (61) = Fin (61)"
    by (simp add: round64_at [where e = "5"] r64)
  have r33: "round64 (62) = Fin (62)"
    by (simp add: round64_at [where e = "5"] r64)
  have r34: "round64 (72) = Fin (72)"
    by (simp add: round64_at [where e = "6"] r64)
  have r35: "round64 (87) = Fin (87)"
    by (simp add: round64_at [where e = "6"] r64)
  have r36: "round64 (100) = Fin (100)"
    by (simp add: round64_at [where e = "6"] r64)
  show ?thesis
    by (simp add: alloc_defs CORE1_BLUEPRINT_def EXAM_QUESTION_COUNT_def round64_neg r0 r1 r2 r3 r4 r5 r6 r7 r8 r9 r10 r11 r12 r13 r14 r15 r16 r17 r18 r19 r20 r21 r22 r23 r24 r25 r26 r27 r28 r29 r30 r31 r32 r33 r34 r35 r36)
qed

lemma alloc_core2:
  "allocateByWeight (num EXAM_QUESTION_COUNT) CORE2_BLUEPRINT
     = Some (Inr [(str ''1.0'', Fin 25), (str ''2.0'', Fin 25), (str ''3.0'', Fin 21),
                  (str ''4.0'', Fin 19)])"
proof -
  have r0: "round64 (56294995342131 / 281474976710656) = Fin (56294995342131 / 281474976710656)"
    by (simp add: round64_at [where e = "-3"] r64)
  have r1: "round64 (14073748835533 / 70368744177664) = Fin (14073748835533 / 70368744177664)"
    by (simp add: round64_at [where e = "-3"] r64)
  have r2: "round64 (21 / 100) = Fin (7566047373982433 / 36028797018963968)"
    by (simp add: round64_at [where e = "-3"] r64)
  have r3: "round64 (23 / 100) = Fin (8286623314361713 / 36028797018963968)"
    by (simp add: round64_at [where e = "-3"] r64)
  have r4: "round64 (7 / 25) = Fin (1261007895663739 / 4503599627370496)"
    by (simp add: round64_at [where e = "-2"] r64)
  have r5: "round64 (140737488355327 / 281474976710656) = Fin (140737488355327 / 281474976710656)"
    by (simp add: round64_at [where e = "-2"] r64)
  have r6: "round64 (98516241848729 / 140737488355328) = Fin (98516241848729 / 140737488355328)"
    by (simp add: round64_at [where e = "-1"] r64)
  have r7: "round64 (197032483697459 / 281474976710656) = Fin (197032483697459 / 281474976710656)"
    by (simp add: round64_at [where e = "-1"] r64)
  have r8: "round64 (126663739519795 / 140737488355328) = Fin (126663739519795 / 140737488355328)"
    by (simp add: round64_at [where e = "-1"] r64)
  have r9: "round64 (2) = Fin (2)"
    by (simp add: round64_at [where e = "1"] r64)
  have r10: "round64 (340472131829209485 / 18014398509481984) = Fin (2659938529915699 / 140737488355328)"
    by (simp add: round64_at [where e = "4"] r64)
  have r11: "round64 (19) = Fin (19)"
    by (simp add: round64_at [where e = "4"] r64)
  have r12: "round64 (372898049146277085 / 18014398509481984) = Fin (5826532017910579 / 281474976710656)"
    by (simp add: round64_at [where e = "4"] r64)
  have r13: "round64 (21) = Fin (21)"
    by (simp add: round64_at [where e = "4"] r64)
  have r14: "round64 (25) = Fin (25)"
    by (simp add: round64_at [where e = "4"] r64)
  have r15: "round64 (56745355304868255 / 2251799813685248) = Fin (1773292353277133 / 70368744177664)"
    by (simp add: round64_at [where e = "4"] r64)
  have r16: "round64 (28) = Fin (28)"
    by (simp add: round64_at [where e = "4"] r64)
  have r17: "round64 (50) = Fin (50)"
    by (simp add: round64_at [where e = "5"] r64)
  have r18: "round64 (56) = Fin (56)"
    by (simp add: round64_at [where e = "5"] r64)
  have r19: "round64 (70) = Fin (70)"
    by (simp add: round64_at [where e = "6"] r64)
  have r20: "round64 (79) = Fin (79)"
    by (simp add: round64_at [where e = "6"] r64)
  have r21: "round64 (88) = Fin (88)"
    by (simp add: round64_at [where e = "6"] r64)
  have r22: "round64 (100) = Fin (100)"
    by (simp add: round64_at [where e = "6"] r64)
  show ?thesis
    by (simp add: alloc_defs CORE2_BLUEPRINT_def EXAM_QUESTION_COUNT_def round64_neg r0 r1 r2 r3 r4 r5 r6 r7 r8 r9 r10 r11 r12 r13 r14 r15 r16 r17 r18 r19 r20 r21 r22)
qed

lemma iterations_nat: "iterations (Fin (numeral n)) = Some (numeral n)" if "numeral n \<le> (2::rat) ^ 53"
  using that by (simp add: iterations_def)

lemma planned_core:
  assumes "unit_doubles rand" and "length (cat cr) < 2 ^ 1000"
  shows "\<exists>allocation plan k. allocateByWeight (num EXAM_QUESTION_COUNT) (blueprint_of cr) = Some (Inr allocation)
           \<and> planDomains cat rand cr allocation (blueprint_of cr) 0 [] = Some (Inr (plan, k))
           \<and> length plan = 90
           \<and> (\<forall>p\<in>set plan. \<exists>d\<in>set (blueprint_of cr). planned_for cat cr d p)"
proof (cases cr)
  case Core1201
  let ?al = "[(str ''1.0'', Fin 12), (str ''2.0'', Fin 21), (str ''3.0'', Fin 22),
              (str ''4.0'', Fin 10), (str ''5.0'', Fin 25 :: jsnum)]"
  define nd :: "DomainBlueprint \<Rightarrow> nat" where
    "nd d = (case map_of ?al (bp_domainNumber d) of Some (Fin r) \<Rightarrow> nat \<lceil>r\<rceil> | _ \<Rightarrow> 0)" for d
  have it: "\<forall>d\<in>set CORE1_BLUEPRINT. iterations (case map_of ?al (bp_domainNumber d) of
                                    None \<Rightarrow> Fin 0 | Some c \<Rightarrow> c) = Some (nd d)"
    by (simp add: CORE1_BLUEPRINT_def nd_def iterations_def str_def)
  from planDomains_ok [of rand cat cr _ ?al nd 0 "[]", OF assms it] obtain items k' where
    r: "planDomains cat rand cr ?al CORE1_BLUEPRINT 0 [] = Some (Inr (items, k'))"
      "length items = sum_list (map nd CORE1_BLUEPRINT)"
      "\<forall>p\<in>set items. \<exists>d\<in>set CORE1_BLUEPRINT. planned_for cat cr d p"
    by auto
  have "sum_list (map nd CORE1_BLUEPRINT) = 90"
    by (simp add: CORE1_BLUEPRINT_def nd_def str_def)
  with r Core1201 alloc_core1 show ?thesis
    by (auto simp: blueprint_of_def)
next
  case Core1202
  let ?al = "[(str ''1.0'', Fin 25), (str ''2.0'', Fin 25), (str ''3.0'', Fin 21),
              (str ''4.0'', Fin 19 :: jsnum)]"
  define nd :: "DomainBlueprint \<Rightarrow> nat" where
    "nd d = (case map_of ?al (bp_domainNumber d) of Some (Fin r) \<Rightarrow> nat \<lceil>r\<rceil> | _ \<Rightarrow> 0)" for d
  have it: "\<forall>d\<in>set CORE2_BLUEPRINT. iterations (case map_of ?al (bp_domainNumber d) of
                                    None \<Rightarrow> Fin 0 | Some c \<Rightarrow> c) = Some (nd d)"
    by (simp add: CORE2_BLUEPRINT_def nd_def iterations_def str_def)
  from planDomains_ok [of rand cat cr _ ?al nd 0 "[]", OF assms it] obtain items k' where
    r: "planDomains cat rand cr ?al CORE2_BLUEPRINT 0 [] = Some (Inr (items, k'))"
      "length items = sum_list (map nd CORE2_BLUEPRINT)"
      "\<forall>p\<in>set items. \<exists>d\<in>set CORE2_BLUEPRINT. planned_for cat cr d p"
    by auto
  have "sum_list (map nd CORE2_BLUEPRINT) = 90"
    by (simp add: CORE2_BLUEPRINT_def nd_def str_def)
  with r Core1202 alloc_core2 show ?thesis
    by (auto simp: blueprint_of_def)
qed

lemma same_but_types_planned:
  assumes "same_but_types xs ys" and "\<forall>p\<in>set xs. \<exists>d\<in>set ds. planned_for cat cr d p"
  shows "\<forall>p\<in>set ys. \<exists>d\<in>set ds. planned_for cat cr d p"
proof
  fix q assume "q \<in> set ys"
  then obtain i where i: "i < length ys" "q = ys ! i" by (auto simp: in_set_conv_nth)
  from assms(1) i(1) have "i < length xs" and "\<exists>t. ys ! i = (xs ! i)\<lparr>pi_type := t\<rparr>"
    by (simp_all add: same_but_types_def list_all2_conv_all_nth)
  then obtain t where t: "ys ! i = (xs ! i)\<lparr>pi_type := t\<rparr>" by blast
  from \<open>i < length xs\<close> assms(2) obtain d where "d \<in> set ds" "planned_for cat cr d (xs ! i)"
    by (meson nth_mem)
  with i(2) t show "\<exists>d\<in>set ds. planned_for cat cr d q"
    by auto
qed

text \<open>
  C7. For each core and every session configuration, with the values of \<open>Math.random\<close>
  in [0, 1) and a catalogue of fewer than \<open>2 ^ 32\<close> objectives, \<open>buildPlan\<close> returns a
  plan of exactly 90 entries; each entry carries the number and label of a domain of the
  blueprint, an objective id of that domain (the placeholder \<open><domainMajor>.1\<close> when the
  domain has no objectives) and one of the four answer types.
\<close>

theorem buildPlan_length:
  assumes "unit_doubles rand" and "length (cat cr) < 2 ^ 32"
  shows "\<exists>plan. buildPlan cat rand cr cfg = Some (Inr plan)
           \<and> length plan = EXAM_QUESTION_COUNT
           \<and> (\<forall>p\<in>set plan. (\<exists>d\<in>set (blueprint_of cr). planned_for cat cr d p)
                \<and> pi_type p \<in> {Single, Multi, PbqOrder, PbqMatch})"
proof -
  have ty: "pi_type p \<in> {Single, Multi, PbqOrder, PbqMatch}" for p
    by (cases "pi_type p") simp_all
  have "(2::nat) ^ 32 \<le> 2 ^ 1000" by (rule power_increasing) simp_all
  with assms(2) have len: "length (cat cr) < 2 ^ 1000" by simp
  from planned_core [of rand cat cr, OF assms(1) len] obtain allocation plan k where
    al: "allocateByWeight (num EXAM_QUESTION_COUNT) (blueprint_of cr) = Some (Inr allocation)"
    and pd: "planDomains cat rand cr allocation (blueprint_of cr) 0 [] = Some (Inr (plan, k))"
    and l90: "length plan = 90"
    and pl: "\<forall>p\<in>set plan. \<exists>d\<in>set (blueprint_of cr). planned_for cat cr d p"
    by blast
  have ne: "plan \<noteq> []" and lt: "length plan < 2 ^ 1000"
    using l90 by auto
  obtain pbqN where pn: "iterations (js_max (Fin 0) (js_min (pbqCount cfg) (Fin 12))) = Some pbqN"
    using pbq_iterations by blast
  from injectPbqs_ok [OF assms(1) ne lt same_but_types_refl, of pbqN k] obtain plan1 k1 where
    p1: "injectPbqs rand pbqN k plan = Inr (plan1, k1)" "same_but_types plan plan1"
    by blast
  have l1: "length plan1 = 90"
    using same_but_types_length [OF p1(2)] l90 by simp
  then have ne1: "plan1 \<noteq> []" and lt1: "length plan1 < 2 ^ 1000"
    by auto
  from sprinkleMulti_ok [OF assms(1) ne1 lt1 p1(2), of 10 k1] obtain plan2 k2 where
    p2: "sprinkleMulti rand 10 k1 plan1 = Inr (plan2, k2)" "same_but_types plan plan2"
    by blast
  have l2: "length plan2 = 90"
    using same_but_types_length [OF p2(2)] l90 by simp
  have "buildPlan cat rand cr cfg = Some (Inr (take EXAM_QUESTION_COUNT plan2))"
    using al pd pn p1(1) p2(1) l1 multi_iterations
    by (simp add: buildPlan_def blueprint_of_def)
  moreover have "take EXAM_QUESTION_COUNT plan2 = plan2"
    using l2 by (simp add: EXAM_QUESTION_COUNT_def)
  moreover note same_but_types_planned [OF p2(2) pl] l2
  ultimately show ?thesis
    using ty by (auto simp: EXAM_QUESTION_COUNT_def)
qed

theorem buildPlan_length_witness:
  "\<exists>plan. buildPlan ex_catalogue ex_rand Core1201
            \<lparr>pbqCount = Fin 5, showObjectiveHints = False, difficulty = Medium\<rparr> = Some (Inr plan)
          \<and> length plan = 90"
proof -
  have a: "round64 (1 / 4) = Fin (1 / 4)"
    by (simp add: round64_at [where e = "-2"] r64)
  have b: "round64 (3 / 4) = Fin (3 / 4)"
    by (simp add: round64_at [where e = "-1"] r64)
  have u: "unit_doubles ex_rand"
    by (simp add: unit_doubles_def ex_rand_def a b)
  have l: "length (ex_catalogue Core1201) < 2 ^ 32"
    by (simp add: ex_catalogue_def)
  from buildPlan_length [of ex_rand ex_catalogue Core1201, OF u l] show ?thesis
    by (auto simp: EXAM_QUESTION_COUNT_def)
qed

section \<open>Properties of the offline synthesizer\<close>

subsection \<open>The draws of the seeded generator\<close>

text \<open>Every value of \<open>next()\<close> is a binary64 number from 0 to \<open>1 - 2 ^ -53\<close>.\<close>

lemma rng_next_unit:
  "\<exists>r g'. rng_next g = (Fin r, g') \<and> 0 \<le> r \<and> r \<le> 1 - 1 / 2 ^ 53"
proof -
  obtain y :: "32 word" and g' where
    n: "rng_next g = (js_div (Fin (of_nat (unat y))) (Fin 4294967296), g')"
    by (simp add: rng_next_def Let_def)
  define k where "k = unat y"
  define x :: rat where "x = of_nat k / 4294967296"
  have d: "js_div (Fin (of_nat k)) (Fin 4294967296) = round64 x"
    by (simp add: x_def)
  have "unat y < 2 ^ LENGTH(32)"
    by (rule unsigned_less)
  then have "k \<le> 4294967295" by (simp add: k_def)
  then have "(of_nat k :: rat) \<le> of_nat 4294967295"
    by (simp only: of_nat_le_iff)
  then have xle: "x \<le> 4294967295 / 4294967296"
    by (simp add: x_def)
  have x0: "0 \<le> x" by (simp add: x_def)
  note n = n [folded k_def]
  show ?thesis
  proof (cases "x = 0")
    case True
    with n d show ?thesis by simp
  next
    case False
    with x0 have xp: "0 < x" by simp
    have "(1::rat) \<le> 2 ^ 1000" by simp
    with xle pow2_numeral_le have "x < pow2 1023" by linarith
    from round64_pos_rel [OF xp this] obtain r where
      r: "round64 x = Fin r" "0 \<le> r" "\<bar>r - x\<bar> \<le> x / 2 ^ 53 + pow2 (- 1075)"
      by blast
    define u :: rat where "u = 1 / 2 ^ 53"
    define s where "s = pow2 (- 1075)"
    have "x / 2 ^ 53 \<le> u"
      using xle x0 by (simp add: u_def field_simps)
    moreover have "s \<le> u"
      by (simp add: s_def u_def pow2_def field_simps)
    moreover have "4294967295 / 4294967296 + 3 * u \<le> 1"
      by (simp add: u_def)
    ultimately have "r \<le> 1 - u"
      using r(3) xle unfolding s_def [symmetric] by linarith
    with n d r show ?thesis
      by (auto simp: u_def)
  qed
qed

lemma draw_index_bound:
  assumes "0 < n" and "n < 2 ^ 1000"
  shows "\<exists>j<n. \<exists>g'. draw_index g n = (Fin (of_nat j), g')"
proof -
  from rng_next_unit [of g] obtain r g' where
    r: "rng_next g = (Fin r, g')" "0 \<le> r" "r \<le> 1 - 1 / 2 ^ 53" by blast
  from floor_mul_index [OF r(2,3) assms] obtain j where
    "j < n" "js_floor (js_mul (Fin r) (num n)) = Fin (of_nat j)" by blast
  with r(1) show ?thesis
    by (auto simp: draw_index_def)
qed

lemma pickOne_some:
  assumes "arr \<noteq> []" and "length arr < 2 ^ 1000"
  shows "\<exists>j<length arr. \<exists>g'. pickOne g arr = (Some (arr ! j), g')"
proof -
  from assms(1) have "0 < length arr" by simp
  from draw_index_bound [OF this assms(2), of g] obtain j g' where
    "j < length arr" "draw_index g (length arr) = (Fin (of_nat j), g')" by blast
  then show ?thesis
    by (auto simp: pickOne_def js_index_of_nat)
qed

subsection \<open>Shuffling\<close>

lemma length_swap [simp]: "length (swap i j a) = length a"
  by (simp add: swap_def split: jsnum.splits)

lemma mset_swap_in_range:
  "i < length a \<Longrightarrow> mset (swap i j a) = mset a"
  by (auto simp: swap_def mset_swap split: jsnum.splits)

lemma shuffleLoop_perm:
  "i < length a \<or> i = 0 \<Longrightarrow>
     length (fst (shuffleLoop i g a)) = length a \<and> mset (fst (shuffleLoop i g a)) = mset a"
proof (induction i arbitrary: g a)
  case 0
  then show ?case by simp
next
  case (Suc i)
  obtain j g' where d: "draw_index g (Suc i + 1) = (j, g')"
    by (cases "draw_index g (Suc i + 1)")
  from Suc.prems have "i < length (swap (Suc i) j a) \<or> i = 0" by simp
  from Suc.IH [OF this, of g'] Suc.prems d show ?case
    by (simp add: mset_swap_in_range)
qed

lemma shuffle_perm:
  "length (fst (shuffle g arr)) = length arr \<and> mset (fst (shuffle g arr)) = mset arr"
proof -
  have "length arr - 1 < length arr \<or> length arr - 1 = 0" by (cases arr) simp_all
  from shuffleLoop_perm [OF this] show ?thesis
    by (simp add: shuffle_def)
qed


subsection \<open>The builders return a question\<close>

lemma length_templates: "length (fst (pbqTemplates cr) @ snd (pbqTemplates cr)) = 5"
  by (simp add: pbqTemplates_def templates_common_def templates_core1_def templates_core2_def)

lemma buildPBQQuestion_ok:
  assumes "pi_type p = PbqOrder \<or> pi_type p = PbqMatch"
  shows "\<exists>q g'. buildPBQQuestion cr sid baseId p g = (Inr q, g')
              \<and> q_id q = sid @ str ''-'' @ baseId \<and> built_for p q"
proof -
  let ?ts = "fst (pbqTemplates cr) @ snd (pbqTemplates cr)"
  have "?ts \<noteq> []" "length ?ts < 2 ^ 1000"
    using length_templates [of cr] by (auto simp del: length_append)
  from pickOne_some [OF this, of g] obtain t g1 where pick: "pickOne g ?ts = (Some t, g1)"
    by blast
  show ?thesis
  proof (cases t)
    case (OrderT tid title prompt items)
    with pick assms show ?thesis
      by (simp add: buildPBQQuestion_def built_for_def)
  next
    case (MatchT tid title prompt leftLabel rightLabel tpairs)
    with pick assms show ?thesis
      by (simp add: buildPBQQuestion_def built_for_def Let_def split: prod.splits)
  qed
qed

lemma length_usable_bullets: "length (usable_bullets p) \<le> length (objectiveBullets p)"
proof -
  have "length (usable_bullets p)
          \<le> length (filter (\<lambda>b. b \<noteq> []) (map sanitizeText (objectiveBullets p)))"
    unfolding usable_bullets_def by (rule length_filter_le)
  also have "\<dots> \<le> length (map sanitizeText (objectiveBullets p))"
    by (rule length_filter_le)
  finally show ?thesis by simp
qed

lemma buildSingleFromObjective_ok:
  assumes "length (objectiveBullets p) < 2 ^ 1000"
  shows "\<exists>q g'. buildSingleFromObjective cat cr sid baseId p g = (Inr q, g')
              \<and> q_id q = sid @ str ''-'' @ baseId \<and> q_type q = Single
              \<and> q_domain q = domainLabel p \<and> q_objective q = objectiveId p
              \<and> q_objectiveTitle q = objectiveTitle p
              \<and> q_objectiveBullets q = objectiveBullets p"
proof -
  let ?pick = "if usable_bullets p \<noteq> [] then pickOne g (usable_bullets p)
               else (Some (sanitizeText (objectiveTitle p)), g)"
  have "\<exists>c g1. ?pick = (Some c, g1)"
  proof (cases "usable_bullets p = []")
    case True
    then show ?thesis by simp
  next
    case False
    have "length (usable_bullets p) < 2 ^ 1000"
      using length_usable_bullets [of p] assms by linarith
    from pickOne_some [OF False this, of g] False show ?thesis
      by auto
  qed
  then obtain c g1 where "?pick = (Some c, g1)" by blast
  then show ?thesis
    by (simp add: buildSingleFromObjective_def Let_def split: prod.splits)
qed

lemma buildMultiFromObjective_ok:
  assumes "length (objectiveBullets p) < 2 ^ 1000"
  shows "\<exists>q g'. buildMultiFromObjective cat cr sid baseId p g = (Inr q, g')
              \<and> q_id q = sid @ str ''-'' @ baseId \<and> (q_type q = Multi \<or> q_type q = Single)
              \<and> q_domain q = domainLabel p \<and> q_objective q = objectiveId p
              \<and> q_objectiveTitle q = objectiveTitle p
              \<and> q_objectiveBullets q = objectiveBullets p"
proof (cases "length (usable_bullets p) < 2")
  case True
  with buildSingleFromObjective_ok [OF assms, of cat cr sid baseId g] show ?thesis
    by (auto simp: buildMultiFromObjective_def)
next
  case False
  then show ?thesis
    by (simp add: buildMultiFromObjective_def Let_def split: prod.splits)
qed

text \<open>One pass through the body of the loop of \<open>buildOfflineQuestions\<close>.\<close>

lemma offline_step_ok:
  assumes "length (objectiveBullets p) < 2 ^ 1000"
  shows "\<exists>q g'. (if pi_type p = PbqOrder \<or> pi_type p = PbqMatch then buildPBQQuestion cr sid baseId p g
                  else if pi_type p = Multi then buildMultiFromObjective cat cr sid baseId p g
                  else buildSingleFromObjective cat cr sid baseId p g) = (Inr q, g')
              \<and> q_id q = sid @ str ''-'' @ baseId \<and> built_for p q"
proof -
  consider "pi_type p = PbqOrder \<or> pi_type p = PbqMatch" | "pi_type p = Multi" | "pi_type p = Single"
    by (cases "pi_type p") auto
  then show ?thesis
  proof cases
    case 1
    with buildPBQQuestion_ok [OF 1, of cr sid baseId g] show ?thesis by auto
  next
    case 2
    with buildMultiFromObjective_ok [OF assms, of cat cr sid baseId g] show ?thesis
      by (auto simp: built_for_def)
  next
    case 3
    with buildSingleFromObjective_ok [OF assms, of cat cr sid baseId g] show ?thesis
      by (auto simp: built_for_def)
  qed
qed

lemma offlineLoop_ok:
  assumes "\<forall>p\<in>set ps. length (objectiveBullets p) < 2 ^ 1000"
  shows "\<exists>out. offlineLoop cat cr sid c g qs ps = Inr (qs @ out)
           \<and> length out = length ps
           \<and> (\<forall>i<length ps. q_id (out ! i) = sid @ str ''-offline-'' @ padStart3 (dec (Suc (c + i)))
                              \<and> built_for (ps ! i) (out ! i))"
  using assms
proof (induction ps arbitrary: c g qs)
  case Nil
  then show ?case by simp
next
  case (Cons p ps)
  let ?baseId = "str ''offline-'' @ padStart3 (dec (Suc c))"
  from Cons.prems have b: "length (objectiveBullets p) < 2 ^ 1000" by simp
  from offline_step_ok [OF b, of cr sid ?baseId g cat] obtain q g' where
    st: "(if pi_type p = PbqOrder \<or> pi_type p = PbqMatch then buildPBQQuestion cr sid ?baseId p g
          else if pi_type p = Multi then buildMultiFromObjective cat cr sid ?baseId p g
          else buildSingleFromObjective cat cr sid ?baseId p g) = (Inr q, g')"
    and qid: "q_id q = sid @ str ''-'' @ ?baseId" and bf: "built_for p q"
    by blast
  from Cons.prems have "\<forall>p\<in>set ps. length (objectiveBullets p) < 2 ^ 1000" by simp
  from Cons.IH [OF this, of "Suc c" g' "qs @ [q]"] obtain out where
    out: "offlineLoop cat cr sid (Suc c) g' (qs @ [q]) ps = Inr ((qs @ [q]) @ out)"
      "length out = length ps"
      "\<forall>i<length ps. q_id (out ! i) = sid @ str ''-offline-'' @ padStart3 (dec (Suc (Suc c + i)))
                        \<and> built_for (ps ! i) (out ! i)"
    by blast
  have "offlineLoop cat cr sid c g qs (p # ps) = Inr (qs @ (q # out))"
    using st out(1) by (auto simp: Let_def split: if_splits)
  moreover have "length (q # out) = length (p # ps)"
    using out(2) by simp
  moreover have "q_id ((q # out) ! i) = sid @ str ''-offline-'' @ padStart3 (dec (Suc (c + i)))
                 \<and> built_for ((p # ps) ! i) ((q # out) ! i)"
    if "i < length (p # ps)" for i
  proof (cases i)
    case 0
    with qid bf show ?thesis by (simp add: str_def)
  next
    case (Suc k)
    with that out(3) show ?thesis by simp
  qed
  ultimately show ?case by blast
qed


subsection \<open>The session id enters the questions through their ids only\<close>

lemma buildPBQQuestion_sid:
  "map_prod (map_sum id without_id) id (buildPBQQuestion cr sid baseId p g)
     = map_prod (map_sum id without_id) id (buildPBQQuestion cr sid' baseId p g)"
  by (simp add: buildPBQQuestion_def without_id_def Let_def
      split: prod.splits option.splits Template.splits)

lemma buildSingleFromObjective_sid:
  "map_prod (map_sum id without_id) id (buildSingleFromObjective cat cr sid baseId p g)
     = map_prod (map_sum id without_id) id (buildSingleFromObjective cat cr sid' baseId p g)"
  by (simp add: buildSingleFromObjective_def without_id_def Let_def
      split: prod.splits option.splits)

lemma buildMultiFromObjective_sid:
  "map_prod (map_sum id without_id) id (buildMultiFromObjective cat cr sid baseId p g)
     = map_prod (map_sum id without_id) id (buildMultiFromObjective cat cr sid' baseId p g)"
proof (cases "length (usable_bullets p) < 2")
  case True
  then show ?thesis
    using buildSingleFromObjective_sid [of cat cr sid baseId p g sid']
    by (simp add: buildMultiFromObjective_def)
next
  case False
  then show ?thesis
    by (simp add: buildMultiFromObjective_def without_id_def Let_def split: prod.splits)
qed

lemma offlineLoop_sid:
  "map without_id qs = map without_id qs' \<Longrightarrow>
   map_sum id (map without_id) (offlineLoop cat cr sid c g qs ps)
     = map_sum id (map without_id) (offlineLoop cat cr sid' c g qs' ps)"
proof (induction ps arbitrary: c g qs qs')
  case Nil
  then show ?case by simp
next
  case (Cons p ps)
  let ?baseId = "str ''offline-'' @ padStart3 (dec (Suc c))"
  let ?B = "\<lambda>s. if pi_type p = PbqOrder \<or> pi_type p = PbqMatch then buildPBQQuestion cr s ?baseId p g
                else if pi_type p = Multi then buildMultiFromObjective cat cr s ?baseId p g
                else buildSingleFromObjective cat cr s ?baseId p g"
  have rel: "map_prod (map_sum id without_id) id (?B sid) = map_prod (map_sum id without_id) id (?B sid')"
    using buildPBQQuestion_sid [of cr sid ?baseId p g sid']
      buildMultiFromObjective_sid [of cat cr sid ?baseId p g sid']
      buildSingleFromObjective_sid [of cat cr sid ?baseId p g sid']
    by simp
  obtain r g1 where b1: "?B sid = (r, g1)" by (cases "?B sid")
  obtain r' g1' where b2: "?B sid' = (r', g1')" by (cases "?B sid'")
  from rel b1 b2 have g: "g1' = g1" and r: "map_sum id without_id r = map_sum id without_id r'"
    by simp_all
  have l1: "offlineLoop cat cr sid c g qs (p # ps)
              = (case r of Inl e \<Rightarrow> Inl e | Inr q \<Rightarrow> offlineLoop cat cr sid (Suc c) g1 (qs @ [q]) ps)"
    using b1 by (simp add: Let_def split: sum.splits)
  have l2: "offlineLoop cat cr sid' c g qs' (p # ps)
              = (case r' of Inl e \<Rightarrow> Inl e | Inr q \<Rightarrow> offlineLoop cat cr sid' (Suc c) g1 (qs' @ [q]) ps)"
    using b2 g by (simp add: Let_def split: sum.splits)
  show ?case
  proof (cases r)
    case (Inl e)
    with r have "r' = Inl e" by (cases r') simp_all
    with Inl show ?thesis unfolding l1 l2 by simp
  next
    case (Inr q)
    with r obtain q' where q': "r' = Inr q'" "without_id q = without_id q'"
      by (cases r') simp_all
    with Cons.prems have "map without_id (qs @ [q]) = map without_id (qs' @ [q'])"
      by simp
    from Cons.IH [OF this, of "Suc c" g1] Inr q' show ?thesis
      unfolding l1 l2 by simp
  qed
qed

lemma buildOfflineQuestions_seed:
  assumes "hashStringToSeed (sid @ str '':'' @ core_str cr @ str '':'' @ difficulty_str (difficulty cfg))
           = hashStringToSeed (sid' @ str '':'' @ core_str cr @ str '':'' @ difficulty_str (difficulty cfg'))"
  shows "map_sum id (map without_id) (buildOfflineQuestions cat cr sid cfg plan)
         = map_sum id (map without_id) (buildOfflineQuestions cat cr sid' cfg' plan)"
proof -
  let ?g = "mulberry32 (hashStringToSeed
              (sid @ str '':'' @ core_str cr @ str '':'' @ difficulty_str (difficulty cfg)))"
  obtain ps g1 where s: "shuffle ?g plan = (ps, g1)" by (cases "shuffle ?g plan")
  have "map_sum id (map without_id) (offlineLoop cat cr sid 0 g1 [] ps)
          = map_sum id (map without_id) (offlineLoop cat cr sid' 0 g1 [] ps)"
    by (rule offlineLoop_sid) simp
  then show ?thesis
    using s assms [symmetric]
    by (cases "offlineLoop cat cr sid 0 g1 [] ps"; cases "offlineLoop cat cr sid' 0 g1 [] ps")
      (simp_all add: buildOfflineQuestions_def take_map [symmetric])
qed

lemma buildOfflineQuestions_ok:
  assumes "\<forall>p\<in>set plan. length (objectiveBullets p) < 2 ^ 32"
  shows "\<exists>qs ps. buildOfflineQuestions cat cr sid cfg plan = Inr qs
           \<and> mset ps = mset plan \<and> length qs = length plan
           \<and> (\<forall>i<length plan. q_id (qs ! i) = sid @ str ''-offline-'' @ padStart3 (dec (i + 1))
                                \<and> built_for (ps ! i) (qs ! i))"
proof -
  let ?g = "mulberry32 (hashStringToSeed
              (sid @ str '':'' @ core_str cr @ str '':'' @ difficulty_str (difficulty cfg)))"
  obtain ps g1 where s: "shuffle ?g plan = (ps, g1)" by (cases "shuffle ?g plan")
  from shuffle_perm [of ?g plan] s have len: "length ps = length plan" and ms: "mset ps = mset plan"
    by simp_all
  have "(2::nat) ^ 32 \<le> 2 ^ 1000" by (rule power_increasing) simp_all
  moreover from ms have "set ps = set plan" by (rule mset_eq_setD)
  ultimately have "\<forall>p\<in>set ps. length (objectiveBullets p) < 2 ^ 1000"
    using assms by fastforce
  from offlineLoop_ok [OF this, of cat cr sid 0 g1 "[]"] obtain out where
    out: "offlineLoop cat cr sid 0 g1 [] ps = Inr out" "length out = length ps"
      "\<forall>i<length ps. q_id (out ! i) = sid @ str ''-offline-'' @ padStart3 (dec (Suc (0 + i)))
                        \<and> built_for (ps ! i) (out ! i)"
    by auto
  have "buildOfflineQuestions cat cr sid cfg plan = Inr out"
    using s out(1,2) len by (simp add: buildOfflineQuestions_def)
  with out(2,3) len ms show ?thesis
    by auto
qed


text \<open>The ids of the questions built offline name no member of \<open>Object.prototype\<close>.\<close>

lemma buildOfflineQuestions_own_lookups:
  assumes "\<forall>p\<in>set plan. length (objectiveBullets p) < 2 ^ 32"
  shows "\<exists>qs. buildOfflineQuestions cat cr sid cfg plan = Inr qs \<and> own_lookups answers qs"
proof -
  from buildOfflineQuestions_ok [OF assms, of cat cr sid cfg] obtain qs where
    r: "buildOfflineQuestions cat cr sid cfg plan = Inr qs" "length qs = length plan"
      "\<forall>i<length plan. q_id (qs ! i) = sid @ str ''-offline-'' @ padStart3 (dec (i + 1))"
    by blast
  have "q_id q \<notin> set object_prototype_names" if "q \<in> set qs" for q
  proof -
    from that obtain i where "i < length qs" "q = qs ! i"
      by (auto simp: in_set_conv_nth)
    with r(2,3) have "q_id q = (sid @ str ''-offline-'' @ replicate (3 - length (dec (i + 1))) 48)
                               @ dec (i + 1)"
      by (simp add: padStart3_def)
    then show ?thesis by (rule generated_id_plain)
  qed
  with r(1) show ?thesis
    by (auto simp: own_lookups_def list_all_iff)
qed

text \<open>
  C3. The questions built offline are a function of the session id, the core, the
  difficulty and the plan (and of the fixed catalogue): two configurations with the same
  difficulty give the same sequence of questions, whatever their other fields. The
  generator is seeded with the FNV-1a hash (offset basis 2166136261, prime 16777619, over
  the UTF-16 code units) of \<open>sessionId:core:difficulty\<close>, and the session id and the
  difficulty reach the questions through that seed only, the ids \<open>sessionId-offline-NNN\<close>
  apart: two runs whose keys have the same hash build the same questions up to their ids.
  For a plan whose items have fewer than \<open>2 ^ 32\<close> bullets each, no draw leaves its
  range: the call returns one question for each item of a rearrangement of the plan, in
  order, with the objective of that item.
\<close>

theorem buildOfflineQuestions_deterministic:
  "(difficulty cfg = difficulty cfg' \<longrightarrow>
      buildOfflineQuestions cat cr sid cfg plan = buildOfflineQuestions cat cr sid cfg' plan)
   \<and> (hashStringToSeed (sid @ str '':'' @ core_str cr @ str '':'' @ difficulty_str (difficulty cfg))
        = hashStringToSeed (sid' @ str '':'' @ core_str cr @ str '':'' @ difficulty_str (difficulty cfg'))
      \<longrightarrow> map_sum id (map without_id) (buildOfflineQuestions cat cr sid cfg plan)
          = map_sum id (map without_id) (buildOfflineQuestions cat cr sid' cfg' plan))
   \<and> hashStringToSeed [] = 2166136261
   \<and> hashStringToSeed (s @ [c]) = (hashStringToSeed s XOR ucast c) * 16777619
   \<and> ((\<forall>p\<in>set plan. length (objectiveBullets p) < 2 ^ 32) \<longrightarrow>
        (\<exists>qs ps. buildOfflineQuestions cat cr sid cfg plan = Inr qs
           \<and> mset ps = mset plan \<and> length qs = length plan
           \<and> (\<forall>i<length plan. q_id (qs ! i) = sid @ str ''-offline-'' @ padStart3 (dec (i + 1))
                                \<and> built_for (ps ! i) (qs ! i))))"
proof -
  have "buildOfflineQuestions cat cr sid cfg plan = buildOfflineQuestions cat cr sid cfg' plan"
    if "difficulty cfg = difficulty cfg'"
    using that by (simp add: buildOfflineQuestions_def)
  moreover have "hashStringToSeed [] = 2166136261"
    and "hashStringToSeed (s @ [c]) = (hashStringToSeed s XOR ucast c) * 16777619"
    by (simp_all add: hashStringToSeed_def)
  ultimately show ?thesis
    using buildOfflineQuestions_seed [of sid cr cfg sid' cfg' cat plan]
      buildOfflineQuestions_ok [of plan cat cr sid cfg]
    by blast
qed

theorem buildOfflineQuestions_deterministic_witness:
  "map_sum id (map (\<lambda>q. (q_id q, q_type q, q_prompt q)))
     (buildOfflineQuestions ex_catalogue Core1201 (str ''s'')
        \<lparr>pbqCount = Fin 5, showObjectiveHints = False, difficulty = Hard\<rparr> [ex_pbq_item])
     = Inr [(str ''s-offline-001'', PbqOrder,
             str ''Put the standard troubleshooting steps in the correct order.'')]
   \<and> map_sum id (map (\<lambda>q. (q_id q, q_type q, q_prompt q)))
     (buildOfflineQuestions ex_catalogue Core1201 (str ''s'')
        \<lparr>pbqCount = Fin 0, showObjectiveHints = True, difficulty = Hard\<rparr> [ex_pbq_item])
     = Inr [(str ''s-offline-001'', PbqOrder,
             str ''Put the standard troubleshooting steps in the correct order.'')]
   \<and> map_sum id (map (\<lambda>q. (q_id q, q_type q, q_prompt q)))
     (buildOfflineQuestions ex_catalogue Core1201 (str ''s'')
        \<lparr>pbqCount = Fin 5, showObjectiveHints = False, difficulty = Easy\<rparr> [ex_pbq_item])
     = Inr [(str ''s-offline-001'', PbqOrder,
             str ''Order the following router hardening actions from first to last.'')]
   \<and> (\<exists>qs. buildOfflineQuestions ex_catalogue Core1201 (str ''s'')
               \<lparr>pbqCount = Fin 5, showObjectiveHints = False, difficulty = Hard\<rparr> [ex_pbq_item] = Inr qs
             \<and> length qs = 1)"
proof -
  have ah: "hashStringToSeed (str ''s:220-1201:hard'') = 3783596698"
    by (simp add: hashStringToSeed_def str_def)
  have a0: "round64 (249955199 / 2147483648) = Fin (249955199 / 2147483648)"
    by (simp add: round64_at [where e = "-4"] r64)
  have a1: "round64 (1249775995 / 2147483648) = Fin (1249775995 / 2147483648)"
    by (simp add: round64_at [where e = "-1"] r64)
  have a2: "round64 (5615162511) = Fin (5615162511)"
    by (simp add: round64_at [where e = "32"] r64)
  have ak: "str ''s'' @ str '':'' @ core_str Core1201 @ str '':'' @ difficulty_str Hard
             = str ''s:220-1201:hard''"
    by (simp add: str_def core_str_def difficulty_str_def)
  have ad: "rng_next (mulberry32 3783596698) = (Fin (249955199 / 2147483648), Fin 5615162511)"
    by (simp add: rng_next_def mulberry32_def to_uint32_def a0 a1 a2 Let_def)
  have ap: "pickOne (mulberry32 3783596698) (fst (pbqTemplates Core1201) @ snd (pbqTemplates Core1201))
             = (Some (hd templates_common), Fin 5615162511)"
    by (simp add: pickOne_def draw_index_def ad num_def a0 a1 a2 js_index_def nth_opt_def pbqTemplates_def
        templates_common_def templates_core1_def)
  have a: "map_sum id (map (\<lambda>q. (q_id q, q_type q, q_prompt q)))
       (buildOfflineQuestions ex_catalogue Core1201 (str ''s'')
          \<lparr>pbqCount = Fin 5, showObjectiveHints = False, difficulty = Hard\<rparr> [ex_pbq_item])
     = Inr [(str ''s-offline-001'', PbqOrder, str ''Put the standard troubleshooting steps in the correct order.'')]"
    by (simp add: buildOfflineQuestions_def ak ah shuffle_def ex_pbq_item_def ex_plan_item_def
        buildPBQQuestion_def ap templates_common_def templates_core1_def)
      (simp add: padStart3_def dec_Suc_0 str_def numeral_2_eq_2)
  have bh: "hashStringToSeed (str ''s:220-1201:easy'') = 2491991993"
    by (simp add: hashStringToSeed_def str_def)
  have b0: "round64 (3183118709 / 4294967296) = Fin (3183118709 / 4294967296)"
    by (simp add: round64_at [where e = "-1"] r64)
  have b1: "round64 (15915593545 / 4294967296) = Fin (15915593545 / 4294967296)"
    by (simp add: round64_at [where e = "1"] r64)
  have b2: "round64 (4323557806) = Fin (4323557806)"
    by (simp add: round64_at [where e = "32"] r64)
  have bk: "str ''s'' @ str '':'' @ core_str Core1201 @ str '':'' @ difficulty_str Easy
             = str ''s:220-1201:easy''"
    by (simp add: str_def core_str_def difficulty_str_def)
  have bd: "rng_next (mulberry32 2491991993) = (Fin (3183118709 / 4294967296), Fin 4323557806)"
    by (simp add: rng_next_def mulberry32_def to_uint32_def b0 b1 b2 Let_def)
  have bp: "pickOne (mulberry32 2491991993) (fst (pbqTemplates Core1201) @ snd (pbqTemplates Core1201))
             = (Some (templates_core1 ! 2), Fin 4323557806)"
    by (simp add: pickOne_def draw_index_def bd num_def b0 b1 b2 js_index_def nth_opt_def pbqTemplates_def
        templates_common_def templates_core1_def)
  have b: "map_sum id (map (\<lambda>q. (q_id q, q_type q, q_prompt q)))
       (buildOfflineQuestions ex_catalogue Core1201 (str ''s'')
          \<lparr>pbqCount = Fin 5, showObjectiveHints = False, difficulty = Easy\<rparr> [ex_pbq_item])
     = Inr [(str ''s-offline-001'', PbqOrder, str ''Order the following router hardening actions from first to last.'')]"
    by (simp add: buildOfflineQuestions_def bk bh shuffle_def ex_pbq_item_def ex_plan_item_def
        buildPBQQuestion_def bp templates_common_def templates_core1_def)
      (simp add: padStart3_def dec_Suc_0 str_def numeral_2_eq_2)
  note t = buildOfflineQuestions_deterministic
    [where cfg = "\<lparr>pbqCount = Fin 5, showObjectiveHints = False, difficulty = Hard\<rparr>"
       and cfg' = "\<lparr>pbqCount = Fin 0, showObjectiveHints = True, difficulty = Hard\<rparr>"
       and cat = ex_catalogue and cr = Core1201 and sid = "str ''s''" and sid' = "str ''s''"
       and plan = "[ex_pbq_item]" and s = "[]" and c = 0]
  from t [THEN conjunct1] have same: "buildOfflineQuestions ex_catalogue Core1201 (str ''s'')
        \<lparr>pbqCount = Fin 0, showObjectiveHints = True, difficulty = Hard\<rparr> [ex_pbq_item]
      = buildOfflineQuestions ex_catalogue Core1201 (str ''s'')
        \<lparr>pbqCount = Fin 5, showObjectiveHints = False, difficulty = Hard\<rparr> [ex_pbq_item]"
    by simp
  have "\<forall>p\<in>set [ex_pbq_item]. length (objectiveBullets p) < 2 ^ 32"
    by (simp add: ex_pbq_item_def ex_plan_item_def)
  with t [THEN conjunct2, THEN conjunct2, THEN conjunct2, THEN conjunct2]
  have "\<exists>qs. buildOfflineQuestions ex_catalogue Core1201 (str ''s'')
               \<lparr>pbqCount = Fin 5, showObjectiveHints = False, difficulty = Hard\<rparr> [ex_pbq_item] = Inr qs
             \<and> length qs = 1"
    by fastforce
  with a b same show ?thesis
    by simp
qed

section \<open>Properties of the weighted allocator\<close>

subsection \<open>Inputs outside the intended range\<close>

lemma js_insort_not_Nil [simp]: "js_insort cmp x xs \<noteq> []"
  by (cases xs) simp_all

lemma js_sort_Nil [simp]: "(js_sort cmp xs = []) = (xs = [])"
  by (cases xs) (simp_all add: js_sort_def)

lemma length_js_insort [simp]: "length (js_insort cmp x xs) = Suc (length xs)"
  by (induction xs) simp_all

lemma length_js_sort [simp]: "length (js_sort cmp xs) = length xs"
  by (induction xs) (simp_all add: js_sort_def)

lemma by_remainder_Nil [simp]: "(by_remainder raw = []) = (raw = [])"
  by (simp add: by_remainder_def)

lemma raw_rows_Nil [simp]: "(raw_rows tot blueprint = []) = (blueprint = [])"
  by (simp add: raw_rows_def)

lemma allocateByWeight_alt:
  "allocateByWeight tot bp
     = (case iterations (js_sub tot (used_sum (raw_rows tot bp))) of
          Some 0 \<Rightarrow> Some (Inr (foldl (\<lambda>c (k, e, f). assoc_set k f c) [] (raw_rows tot bp)))
        | Some (Suc n) \<Rightarrow>
            (if bp = [] then Some (Inl (TypeError (str ''Cannot read properties of undefined'')))
             else Some (Inr (distribute (by_remainder (raw_rows tot bp)) (Suc n)
                              (foldl (\<lambda>c (k, e, f). assoc_set k f c) [] (raw_rows tot bp)))))
        | None \<Rightarrow>
            (if bp = [] then Some (Inl (TypeError (str ''Cannot read properties of undefined'')))
             else None))"
proof (cases "iterations (js_sub tot (used_sum (raw_rows tot bp)))")
  case None
  then show ?thesis by (simp add: allocateByWeight_def Let_def)
next
  case (Some n)
  then show ?thesis by (cases n) (simp_all add: allocateByWeight_def Let_def)
qed

lemma allocateByWeight_returns_or_loops:
  assumes "blueprint \<noteq> []"
  shows "allocateByWeight tot blueprint = None
         \<or> (\<exists>counts. allocateByWeight tot blueprint = Some (Inr counts))"
proof (cases "iterations (js_sub tot (used_sum (raw_rows tot blueprint)))")
  case None
  with assms show ?thesis by (simp add: allocateByWeight_alt)
next
  case (Some n)
  with assms show ?thesis by (cases n) (simp_all add: allocateByWeight_alt)
qed

lemma raw_rows_empty [simp]: "raw_rows tot [] = []"
  by (simp add: raw_rows_def)

lemma allocateByWeight_empty:
  assumes "is_double tot"
  shows "allocateByWeight tot []
           = (if js_lt (Fin 0) tot
              then Some (Inl (TypeError (str ''Cannot read properties of undefined'')))
              else Some (Inr []))"
proof (cases tot)
  case (Fin r)
  with assms have r: "round64 r = Fin r" by (simp add: is_double_def)
  have rem: "js_sub tot (used_sum (raw_rows tot [])) = Fin r"
    using Fin r by (simp add: raw_rows_def used_sum_def js_sub_def)
  show ?thesis
  proof (cases "0 < r")
    case False
    then have "iterations (Fin r) = Some 0" by (simp add: iterations_def)
    with False Fin rem show ?thesis by (simp add: allocateByWeight_alt)
  next
    case True
    then have "0 < nat \<lceil>r\<rceil>" by simp
    then obtain n where "nat \<lceil>r\<rceil> = Suc n" by (cases "nat \<lceil>r\<rceil>") simp_all
    with True have "iterations (Fin r) = None \<or> iterations (Fin r) = Some (Suc n)"
      by (simp add: iterations_def)
    with True Fin rem show ?thesis by (auto simp: allocateByWeight_alt)
  qed
next
  case PInf
  then show ?thesis
    by (simp add: allocateByWeight_alt raw_rows_def used_sum_def js_sub_def iterations_def)
next
  case NInf
  then show ?thesis
    by (simp add: allocateByWeight_alt raw_rows_def used_sum_def js_sub_def iterations_def)
next
  case NaN
  then show ?thesis
    by (simp add: allocateByWeight_alt raw_rows_def used_sum_def js_sub_def iterations_def)
qed

text \<open>
  C6. \<open>allocateByWeight\<close> checks nothing about its arguments and has no error of its own.
  For a non-empty blueprint it never throws, whatever the total and the weights are: it
  returns a dictionary of counts, or (when the shortfall is infinite or above \<open>2 ^ 53\<close>)
  does not return. For the empty blueprint and a binary64 total it returns the empty
  dictionary when the total is not above 0 (NaN included), and when the total is above 0
  the first round of the distribution loop reads \<open>.key\<close> of \<open>undefined\<close>, a TypeError.
\<close>

theorem allocateByWeight_no_validation:
  "(blueprint \<noteq> [] \<longrightarrow>
      allocateByWeight tot blueprint = None
      \<or> (\<exists>counts. allocateByWeight tot blueprint = Some (Inr counts)))
   \<and> (is_double tot' \<and> \<not> js_lt (Fin 0) tot' \<longrightarrow> allocateByWeight tot' [] = Some (Inr []))
   \<and> (is_double tot' \<and> js_lt (Fin 0) tot' \<longrightarrow>
        allocateByWeight tot' [] = Some (Inl (TypeError (str ''Cannot read properties of undefined''))))"
  using allocateByWeight_returns_or_loops [of blueprint tot] allocateByWeight_empty [of tot']
  by auto

theorem allocateByWeight_no_validation_witness:
  "(allocateByWeight (Fin (- 1)) [ex_domain (str ''1.0'') 1] = None
    \<or> (\<exists>counts. allocateByWeight (Fin (- 1)) [ex_domain (str ''1.0'') 1] = Some (Inr counts)))
   \<and> allocateByWeight NaN [] = Some (Inr [])
   \<and> allocateByWeight (Fin 3) []
       = Some (Inl (TypeError (str ''Cannot read properties of undefined'')))"
proof -
  have r3: "round64 3 = Fin 3"
    by (simp add: round64_at [where e = "1"] r64)
  have d: "is_double (Fin 3)" "is_double NaN"
    by (simp_all add: is_double_def r3)
  from allocateByWeight_no_validation [of "[ex_domain (str ''1.0'') 1]" "Fin (- 1)" NaN]
    allocateByWeight_no_validation [of "[]" "Fin 0" "Fin 3"] d
  show ?thesis
    by simp
qed

text \<open>
  No error for a negative total, for weights of sum zero, or for the empty list with total
  0: the call returns the dictionary \<open>{"1.0": -1}\<close>, \<open>{"1.0": NaN}\<close> and \<open>{}\<close>.
\<close>

theorem allocateByWeight_no_error_counterexample:
  "allocateByWeight (Fin (- 1)) [ex_domain (str ''1.0'') 1] = Some (Inr [(str ''1.0'', Fin (- 1))])
   \<and> allocateByWeight (Fin 90) [ex_domain (str ''1.0'') 0] = Some (Inr [(str ''1.0'', NaN)])
   \<and> allocateByWeight (Fin 0) [] = Some (Inr [])"
proof -
  have r0: "round64 (1) = Fin (1)"
    by (simp add: round64_at [where e = "0"] r64)
  have "allocateByWeight (Fin (- 1)) [ex_domain (str ''1.0'') 1] = Some (Inr [(str ''1.0'', Fin (- 1))])"
    by (simp add: alloc_defs ex_domain_def round64_neg r0)
  moreover have "allocateByWeight (Fin 90) [ex_domain (str ''1.0'') 0] = Some (Inr [(str ''1.0'', NaN)])"
    by (simp add: alloc_defs ex_domain_def)
  moreover have "allocateByWeight (Fin 0) [] = Some (Inr [])"
    by (simp add: alloc_defs)
  ultimately show ?thesis by simp
qed

subsection \<open>Ties between remainders\<close>

text \<open>
  Total 21 over the weights 5 and 9: the exact shares are 7.5 and 13.5, a tie between the
  remainders, which the input order would give to the first key. In binary64 the shares come
  out as 7.5 and 13.500000000000002, so the second key is ranked first and gets the extra
  unit.
\<close>

theorem allocateByWeight_tie_counterexample:
  "allocateByWeight (Fin 21) [ex_domain (str ''1.0'') 5, ex_domain (str ''2.0'') 9]
     = Some (Inr [(str ''1.0'', Fin 7), (str ''2.0'', Fin 14)])
   \<and> \<lfloor>21 * 5 / 14 :: rat\<rfloor> = 7 \<and> \<lfloor>21 * 9 / 14 :: rat\<rfloor> = 13
   \<and> (21 * 5 / 14 :: rat) - of_int \<lfloor>21 * 5 / 14 :: rat\<rfloor> = 21 * 9 / 14 - of_int \<lfloor>21 * 9 / 14 :: rat\<rfloor>"
proof -
  have r0: "round64 (1 / 562949953421312) = Fin (1 / 562949953421312)"
    by (simp add: round64_at [where e = "-49"] r64)
  have r1: "round64 (5 / 14) = Fin (6433713753386423 / 18014398509481984)"
    by (simp add: round64_at [where e = "-2"] r64)
  have r2: "round64 (1 / 2) = Fin (1 / 2)"
    by (simp add: round64_at [where e = "-1"] r64)
  have r3: "round64 (281474976710657 / 562949953421312) = Fin (281474976710657 / 562949953421312)"
    by (simp add: round64_at [where e = "-1"] r64)
  have r4: "round64 (9 / 14) = Fin (5790342378047781 / 9007199254740992)"
    by (simp add: round64_at [where e = "-1"] r64)
  have r5: "round64 (1) = Fin (1)"
    by (simp add: round64_at [where e = "0"] r64)
  have r6: "round64 (5) = Fin (5)"
    by (simp add: round64_at [where e = "2"] r64)
  have r7: "round64 (7) = Fin (7)"
    by (simp add: round64_at [where e = "2"] r64)
  have r8: "round64 (135107988821114883 / 18014398509481984) = Fin (15 / 2)"
    by (simp add: round64_at [where e = "2"] r64)
  have r9: "round64 (121597189939003401 / 9007199254740992) = Fin (7599824371187713 / 562949953421312)"
    by (simp add: round64_at [where e = "3"] r64)
  have r10: "round64 (14) = Fin (14)"
    by (simp add: round64_at [where e = "3"] r64)
  have r11: "round64 (20) = Fin (20)"
    by (simp add: round64_at [where e = "4"] r64)
  show ?thesis
    by (simp add: alloc_defs ex_domain_def round64_neg r0 r1 r2 r3 r4 r5 r6 r7 r8 r9 r10 r11)
qed

end
